theory Spec2Isabelle
  imports Complex_Main "HOL-Library.Word" "HOL-Library.Signed_Division"
    "HOL-Library.Char_ord" "HOL-Library.List_Lexorder"
begin

chapter \<open>A shallow embedding of the CMS backend\<close>

text \<open>
  The development follows the Go sources: the pagination primitive of package
  \<^verbatim>\<open>models\<close>, the repositories of package \<^verbatim>\<open>repository\<close> over the schema of
  \<^verbatim>\<open>table.sql\<close>, and the handlers that wrap repository results into the response
  envelope.
\<close>

section \<open>Go integers\<close>

text \<open>
  Go's \<^verbatim>\<open>int\<close> is taken at its width on the 64-bit targets the server is built for; it
  and \<^verbatim>\<open>int64\<close> are 64-bit two's complement words, so the conversion \<^verbatim>\<open>int(total)\<close>
  is the identity. Addition, subtraction and multiplication wrap around. The quotient
  \<^verbatim>\<open>x / y\<close> truncates towards zero and the remainder \<^verbatim>\<open>x % y\<close> takes the sign of the
  dividend; both panic when the divisor is zero.
\<close>

type_synonym go_int = "64 word"
type_synonym int64 = "64 word"

datatype panic = DivideByZero

definition go_quo :: "go_int \<Rightarrow> go_int \<Rightarrow> panic + go_int" where
  "go_quo x y = (if y = 0 then Inl DivideByZero else Inr (word_of_int (sint x sdiv sint y)))"

definition go_rem :: "go_int \<Rightarrow> go_int \<Rightarrow> panic + go_int" where
  "go_rem x y = (if y = 0 then Inl DivideByZero else Inr (word_of_int (sint x smod sint y)))"

section \<open>Pagination (package models)\<close>

record PaginationParams =
  Page :: go_int
  PageSize :: go_int
  SortBy :: string
  SortDir :: string

definition DefaultPagination :: PaginationParams where
  "DefaultPagination =
     \<lparr>Page = 1, PageSize = 20, SortBy = ''created_at'', SortDir = ''desc''\<rparr>"

definition Offset :: "PaginationParams \<Rightarrow> go_int" where
  "Offset p = (Page p - 1) * PageSize p"

definition Limit :: "PaginationParams \<Rightarrow> go_int" where
  "Limit p = PageSize p"

text \<open>\<^verbatim>\<open>Normalize\<close> mutates its receiver; the model returns the updated parameters.\<close>

definition Normalize :: "PaginationParams \<Rightarrow> PaginationParams" where
  "Normalize p =
    (let p1 = (if Page p <s 1 then p\<lparr>Page := 1\<rparr> else p);
         p2 = (if PageSize p1 <s 1 then p1\<lparr>PageSize := 20\<rparr> else p1);
         p3 = (if 100 <s PageSize p2 then p2\<lparr>PageSize := 100\<rparr> else p2)
     in if SortDir p3 \<noteq> ''asc'' \<and> SortDir p3 \<noteq> ''desc''
        then p3\<lparr>SortDir := ''desc''\<rparr> else p3)"

record 'a PaginatedResult =
  pr_Data :: "'a list"
  pr_Total :: int64
  pr_Page :: go_int
  pr_PageSize :: go_int
  pr_TotalPages :: go_int

definition NewPaginatedResult ::
  "'a list \<Rightarrow> int64 \<Rightarrow> PaginationParams \<Rightarrow> panic + 'a PaginatedResult" where
  "NewPaginatedResult data tot params =
    (case go_quo tot (PageSize params) of
       Inl e \<Rightarrow> Inl e
     | Inr totalPages \<Rightarrow>
        (case go_rem tot (PageSize params) of
           Inl e \<Rightarrow> Inl e
         | Inr r \<Rightarrow>
            Inr \<lparr>pr_Data = data, pr_Total = tot, pr_Page = Page params,
                 pr_PageSize = PageSize params,
                 pr_TotalPages = (if 0 <s r then totalPages + 1 else totalPages)\<rparr>))"

section \<open>Query parsing and list metadata (package handlers)\<close>

text \<open>
  \<^verbatim>\<open>parsePaginationParams\<close> reads the query string. The query is the function
  \<^verbatim>\<open>r.URL.Query().Get\<close>, which yields the empty string for a missing key;
  \<^verbatim>\<open>strconv.Atoi\<close> belongs to the Go library and is a parameter, \<open>None\<close> standing for
  its error.
\<close>

definition parsePaginationParams ::
  "(string \<Rightarrow> go_int option) \<Rightarrow> (string \<Rightarrow> string) \<Rightarrow> PaginationParams" where
  "parsePaginationParams atoi query =
    (let params = DefaultPagination;
         params = (if query ''page'' \<noteq> ''''
                   then (case atoi (query ''page'') of
                           Some p \<Rightarrow> params\<lparr>Page := p\<rparr> | None \<Rightarrow> params)
                   else params);
         params = (if query ''page_size'' \<noteq> ''''
                   then (case atoi (query ''page_size'') of
                           Some ps \<Rightarrow> params\<lparr>PageSize := ps\<rparr> | None \<Rightarrow> params)
                   else params);
         params = (if query ''sort_by'' \<noteq> ''''
                   then params\<lparr>SortBy := query ''sort_by''\<rparr> else params);
         params = (if query ''sort_dir'' \<noteq> ''''
                   then params\<lparr>SortDir := query ''sort_dir''\<rparr> else params)
     in Normalize params)"

text \<open>
  Every \<^verbatim>\<open>List\<close> handler (tags, posts, content types, contacts, settings, media) builds
  the response metadata inline from the normalized filter and the total the repository
  counted: \<^verbatim>\<open>TotalPages: int(total)/filter.PageSize + 1\<close>.
\<close>

record Meta =
  meta_Page :: go_int
  meta_PageSize :: go_int
  meta_Total :: int64
  meta_TotalPages :: go_int

definition List_Meta :: "PaginationParams \<Rightarrow> int64 \<Rightarrow> panic + Meta" where
  "List_Meta flt tot =
    (case go_quo tot (PageSize flt) of
       Inl e \<Rightarrow> Inl e
     | Inr q \<Rightarrow>
        Inr \<lparr>meta_Page = Page flt, meta_PageSize = PageSize flt,
             meta_Total = tot, meta_TotalPages = q + 1\<rparr>)"


section \<open>Entities (package models)\<close>

text \<open>
  Identifiers and instants are abstract: a \<^verbatim>\<open>uuid.UUID\<close> is a number (\<^verbatim>\<open>uuid.Nil\<close> is
  0), a \<^verbatim>\<open>time.Time\<close> is a point on a clock, a \<^verbatim>\<open>json.RawMessage\<close> is its text. A
  pointer or nullable column is an \<open>option\<close>. The enumerations are \<^verbatim>\<open>int16\<close>.
\<close>

type_synonym uuid = nat
type_synonym timestamp = nat
type_synonym json = string
type_synonym int16 = "16 word"

definition uuid_Nil :: uuid where
  "uuid_Nil = 0"

definition PostStatusDraft :: int16 where
  "PostStatusDraft = 1"

definition ContactStatusNew :: int16 where
  "ContactStatusNew = 1"

definition ContactStatusRead :: int16 where
  "ContactStatusRead = 2"

record User =
  user_ID :: uuid
  user_Email :: string
  user_PasswordHash :: string
  user_FullName :: string
  user_Role :: int16
  user_IsActive :: bool
  user_LastLogin :: "timestamp option"
  user_CreatedAt :: timestamp
  user_UpdatedAt :: timestamp

record UserResponse =
  ur_ID :: uuid
  ur_Email :: string
  ur_FullName :: string
  ur_Role :: int16
  ur_IsActive :: bool
  ur_LastLogin :: "timestamp option"
  ur_CreatedAt :: timestamp
  ur_UpdatedAt :: timestamp

record ContentType =
  ct_ID :: uuid
  ct_Name :: string
  ct_Slug :: string
  ct_SchemaFields :: "json option"
  ct_IsActive :: bool
  ct_DisplayOrder :: go_int
  ct_CreatedAt :: timestamp
  ct_UpdatedAt :: timestamp

record Tag =
  tag_ID :: uuid
  tag_Name :: string
  tag_Slug :: string
  tag_CreatedAt :: timestamp

record Media =
  media_ID :: uuid
  media_FileName :: string
  media_ObjectKey :: string
  media_BucketName :: string
  media_CDNUrl :: "string option"
  media_FileType :: int16
  media_MimeType :: string
  media_FileSize :: go_int
  media_Dimensions :: "json option"
  media_Variants :: "json option"
  media_AltText :: "string option"
  media_Checksum :: "string option"
  media_CreatedAt :: timestamp

text \<open>
  A row of \<^verbatim>\<open>post_media\<close>; the struct \<^verbatim>\<open>PostMedia\<close> adds the joined media record.
\<close>

record post_media_row =
  pm_ID :: uuid
  pm_PostID :: uuid
  pm_MediaID :: uuid
  pm_MediaRole :: int16
  pm_DisplayOrder :: go_int
  pm_CreatedAt :: timestamp

record PostMedia = post_media_row +
  pm_Media :: "Media option"

text \<open>
  A row of \<^verbatim>\<open>content_posts\<close>; the struct \<^verbatim>\<open>ContentPost\<close> adds the relations
  ("populated on demand").
\<close>

record post_row =
  post_ID :: uuid
  post_ContentTypeID :: uuid
  post_AuthorID :: uuid
  post_Title :: string
  post_Slug :: string
  post_Excerpt :: "string option"
  post_Content :: "string option"
  post_Metadata :: "json option"
  post_Status :: int16
  post_PublishedAt :: "timestamp option"
  post_ViewCount :: go_int
  post_CreatedAt :: timestamp
  post_UpdatedAt :: timestamp

record ContentPost = post_row +
  post_ContentType :: "ContentType option"
  post_Author :: "UserResponse option"
  post_Tags :: "Tag list"
  post_Media :: "PostMedia list"

record post_tag_row =
  pt_PostID :: uuid
  pt_TagID :: uuid
  pt_CreatedAt :: timestamp

record ContactSubmission =
  contact_ID :: uuid
  contact_Name :: string
  contact_Email :: string
  contact_Phone :: "string option"
  contact_Subject :: "string option"
  contact_Message :: string
  contact_Status :: int16
  contact_IPAddress :: "string option"
  contact_UserAgent :: "string option"
  contact_Metadata :: "json option"
  contact_ReadAt :: "timestamp option"
  contact_CreatedAt :: timestamp

record Setting =
  setting_ID :: uuid
  setting_Key :: string
  setting_Value :: "string option"
  setting_Description :: "string option"
  setting_UpdatedAt :: timestamp

subsection \<open>Requests\<close>

record CreatePostRequest =
  cpr_ContentTypeID :: uuid
  cpr_AuthorID :: uuid
  cpr_Title :: string
  cpr_Slug :: string
  cpr_Excerpt :: "string option"
  cpr_Content :: "string option"
  cpr_Metadata :: "json option"
  cpr_Status :: "int16 option"
  cpr_PublishedAt :: "timestamp option"
  cpr_TagIDs :: "uuid list"

record UpdatePostRequest =
  upr_ContentTypeID :: "uuid option"
  upr_Title :: "string option"
  upr_Slug :: "string option"
  upr_Excerpt :: "string option"
  upr_Content :: "string option"
  upr_Metadata :: "json option"
  upr_Status :: "int16 option"
  upr_PublishedAt :: "timestamp option"
  upr_TagIDs :: "uuid list option"

record UpdateTagRequest =
  utr_Name :: "string option"
  utr_Slug :: "string option"

record UpdateMediaRequest =
  umr_FileName :: "string option"
  umr_CDNUrl :: "string option"
  umr_Dimensions :: "json option"
  umr_Variants :: "json option"
  umr_AltText :: "string option"

record CreateSettingRequest =
  csr_Key :: string
  csr_Value :: "string option"
  csr_Description :: "string option"

record UpdateSettingRequest =
  usr_Value :: "string option"
  usr_Description :: "string option"

record UpdateContentTypeRequest =
  uctr_Name :: "string option"
  uctr_Slug :: "string option"
  uctr_SchemaFields :: "json option"
  uctr_IsActive :: "bool option"
  uctr_DisplayOrder :: "go_int option"

record UpdateContactRequest =
  ucr_Status :: "int16 option"


section \<open>Storage: the schema of table.sql\<close>

text \<open>
  A database state holds each table as the list of its rows. The storage engine is
  modelled as far as the schema declares it: primary keys and \<^verbatim>\<open>UNIQUE\<close> columns,
  foreign keys (checked after the row is written, \<^verbatim>\<open>ON DELETE RESTRICT\<close> on the
  references of \<^verbatim>\<open>content_posts\<close>), column defaults, and the \<^verbatim>\<open>BEFORE UPDATE\<close>
  triggers that set \<^verbatim>\<open>updated_at\<close>. Two columns take a value straight from a request
  body and are modelled with their declared range: \<^verbatim>\<open>contact_submissions.status\<close>
  with its \<^verbatim>\<open>CHECK (status BETWEEN 1 AND 4)\<close>, and \<^verbatim>\<open>settings.key\<close> with its width
  \<^verbatim>\<open>VARCHAR(100)\<close>. A statement fails only by violating one of these constraints: the
  connection does not break, and every other value fits its column (the remaining
  \<^verbatim>\<open>VARCHAR\<close> and \<^verbatim>\<open>INTEGER\<close> widths and \<^verbatim>\<open>CHECK\<close> ranges are not modelled). A string
  is the list of its characters. The clock value a statement sees
  (\<^verbatim>\<open>CURRENT_TIMESTAMP\<close>, \<^verbatim>\<open>time.Now()\<close>) and the identifier \<^verbatim>\<open>uuid.New()\<close> draws
  are parameters.
\<close>

record database =
  users :: "User list"
  content_types :: "ContentType list"
  content_posts :: "post_row list"
  media :: "Media list"
  post_media :: "post_media_row list"
  tags :: "Tag list"
  post_tags :: "post_tag_row list"
  contact_submissions :: "ContactSubmission list"
  settings :: "Setting list"

text \<open>
  What a statement reports: a \<^verbatim>\<open>pgconn.PgError\<close> with its SQLSTATE code, or
  \<^verbatim>\<open>pgx.ErrNoRows\<close> from \<^verbatim>\<open>Scan\<close> on an empty result.
\<close>

datatype db_error = PgError string | ErrNoRows

definition unique_violation :: db_error where
  "unique_violation = PgError ''23505''"

definition foreign_key_violation :: db_error where
  "foreign_key_violation = PgError ''23503''"

definition check_violation :: db_error where
  "check_violation = PgError ''23514''"

definition string_data_right_truncation :: db_error where
  "string_data_right_truncation = PgError ''22001''"

text \<open>
  Storing a string in a \<^verbatim>\<open>VARCHAR(n)\<close> column: a string of more than \<open>n\<close> characters is
  refused, unless the characters beyond the first \<open>n\<close> are all spaces, which are then
  cut off.
\<close>

definition varchar :: "nat \<Rightarrow> string \<Rightarrow> db_error + string" where
  "varchar n s =
     (if length s \<le> n then Inr s
      else if list_all (\<lambda>c. c = CHR '' '') (drop n s) then Inr (take n s)
      else Inl string_data_right_truncation)"

subsection \<open>Statements on content_posts and post_tags\<close>

text \<open>
  \<^verbatim>\<open>INSERT INTO content_posts (...) VALUES (...) RETURNING view_count, created_at,
  updated_at\<close>: the defaults fill the three returned columns.
\<close>

definition insert_content_post ::
  "timestamp \<Rightarrow> post_row \<Rightarrow> database \<Rightarrow> db_error + database \<times> post_row" where
  "insert_content_post now row db =
    (let stored = row\<lparr>post_ViewCount := 0, post_CreatedAt := now, post_UpdatedAt := now\<rparr>
     in if list_ex (\<lambda>r. post_ID r = post_ID row \<or> post_Slug r = post_Slug row)
             (content_posts db)
        then Inl unique_violation
        else if \<not> list_ex (\<lambda>c. ct_ID c = post_ContentTypeID row) (content_types db)
              \<or> \<not> list_ex (\<lambda>u. user_ID u = post_AuthorID row) (users db)
        then Inl foreign_key_violation
        else Inr (db\<lparr>content_posts := content_posts db @ [stored]\<rparr>, stored))"

text \<open>The assignments an \<^verbatim>\<open>UPDATE content_posts SET ...\<close> can carry.\<close>

datatype post_set =
    Set_content_type_id uuid
  | Set_title string
  | Set_slug string
  | Set_excerpt string
  | Set_content string
  | Set_metadata json
  | Set_status int16
  | Set_published_at timestamp

fun apply_post_set :: "post_row \<Rightarrow> post_set \<Rightarrow> post_row" where
  "apply_post_set r (Set_content_type_id v) = r\<lparr>post_ContentTypeID := v\<rparr>"
| "apply_post_set r (Set_title v) = r\<lparr>post_Title := v\<rparr>"
| "apply_post_set r (Set_slug v) = r\<lparr>post_Slug := v\<rparr>"
| "apply_post_set r (Set_excerpt v) = r\<lparr>post_Excerpt := Some v\<rparr>"
| "apply_post_set r (Set_content v) = r\<lparr>post_Content := Some v\<rparr>"
| "apply_post_set r (Set_metadata v) = r\<lparr>post_Metadata := Some v\<rparr>"
| "apply_post_set r (Set_status v) = r\<lparr>post_Status := v\<rparr>"
| "apply_post_set r (Set_published_at v) = r\<lparr>post_PublishedAt := Some v\<rparr>"

text \<open>
  \<^verbatim>\<open>UPDATE content_posts SET ... WHERE id = $n\<close>, with the number of rows affected. The
  trigger stamps \<^verbatim>\<open>updated_at\<close>; the slug must stay unique among the other rows and a
  changed content type must exist.
\<close>

definition update_content_post ::
  "timestamp \<Rightarrow> post_set list \<Rightarrow> uuid \<Rightarrow> database \<Rightarrow> db_error + database \<times> nat" where
  "update_content_post now sets pid db =
    (case find (\<lambda>r. post_ID r = pid) (content_posts db) of
       None \<Rightarrow> Inr (db, 0)
     | Some old \<Rightarrow>
        (let upd = (\<lambda>r. (foldl apply_post_set r sets)\<lparr>post_UpdatedAt := now\<rparr>);
             new = upd old
         in if list_ex (\<lambda>r. post_ID r \<noteq> pid \<and> post_Slug r = post_Slug new) (content_posts db)
            then Inl unique_violation
            else if post_ContentTypeID new \<noteq> post_ContentTypeID old
                  \<and> \<not> list_ex (\<lambda>c. ct_ID c = post_ContentTypeID new) (content_types db)
            then Inl foreign_key_violation
            else Inr (db\<lparr>content_posts :=
                          map (\<lambda>r. if post_ID r = pid then upd r else r) (content_posts db)\<rparr>,
                      1)))"

text \<open>
  \<^verbatim>\<open>INSERT INTO post_tags (post_id, tag_id) VALUES ($1, $2) ON CONFLICT DO NOTHING\<close>: a
  pair already stored is skipped before any row is written; otherwise both references
  must exist.
\<close>

definition insert_post_tag ::
  "timestamp \<Rightarrow> uuid \<Rightarrow> uuid \<Rightarrow> database \<Rightarrow> db_error + database" where
  "insert_post_tag now postID tagID db =
    (if list_ex (\<lambda>pt. pt_PostID pt = postID \<and> pt_TagID pt = tagID) (post_tags db)
     then Inr db
     else if \<not> list_ex (\<lambda>r. post_ID r = postID) (content_posts db)
           \<or> \<not> list_ex (\<lambda>t. tag_ID t = tagID) (tags db)
     then Inl foreign_key_violation
     else Inr (db\<lparr>post_tags := post_tags db @
                 [\<lparr>pt_PostID = postID, pt_TagID = tagID, pt_CreatedAt = now\<rparr>]\<rparr>))"

text \<open>\<^verbatim>\<open>DELETE FROM post_tags WHERE post_id = $1\<close>.\<close>

definition delete_post_tags :: "uuid \<Rightarrow> database \<Rightarrow> database" where
  "delete_post_tags postID db =
     db\<lparr>post_tags := filter (\<lambda>pt. pt_PostID pt \<noteq> postID) (post_tags db)\<rparr>"

section \<open>Repositories (package repository)\<close>

text \<open>
  The sentinel errors of the package, and \<^verbatim>\<open>fmt.Errorf("...: %w", err)\<close> as \<open>Wrapped\<close>
  with its message and cause. Every operation takes the database and returns its
  result with the database it leaves; an operation that only reads returns the result
  alone.
\<close>

datatype repo_error =
    ErrNotFound
  | ErrDuplicate
  | ErrInvalidInput
  | ErrForeignKey
  | Wrapped string db_error

subsection \<open>ContentPostRepository\<close>

text \<open>
  A transaction works on its own copy of the state (\<open>tx\<close>): \<^verbatim>\<open>Commit\<close> makes the copy
  the database, and the deferred \<^verbatim>\<open>Rollback\<close> of an early return leaves the database as
  it was at \<^verbatim>\<open>Begin\<close>.
\<close>

fun attachTagsTx :: "timestamp \<Rightarrow> uuid \<Rightarrow> uuid list \<Rightarrow> database \<Rightarrow> repo_error + database" where
  "attachTagsTx now postID [] tx = Inr tx"
| "attachTagsTx now postID (tagID # tagIDs) tx =
    (case insert_post_tag now postID tagID tx of
       Inl err \<Rightarrow> Inl (Wrapped ''failed to attach tag'' err)
     | Inr tx' \<Rightarrow> attachTagsTx now postID tagIDs tx')"

definition ContentPostRepository_Create ::
  "uuid \<Rightarrow> timestamp \<Rightarrow> CreatePostRequest \<Rightarrow> database
     \<Rightarrow> (repo_error + ContentPost) \<times> database" where
  "ContentPostRepository_Create new_id now req db =
    (let tx = db;
         post = \<lparr>post_ID = new_id, post_ContentTypeID = cpr_ContentTypeID req,
                 post_AuthorID = cpr_AuthorID req, post_Title = cpr_Title req,
                 post_Slug = cpr_Slug req, post_Excerpt = cpr_Excerpt req,
                 post_Content = cpr_Content req, post_Metadata = cpr_Metadata req,
                 post_Status = PostStatusDraft, post_PublishedAt = cpr_PublishedAt req,
                 post_ViewCount = 0, post_CreatedAt = 0, post_UpdatedAt = 0,
                 post_ContentType = None, post_Author = None, post_Tags = [],
                 post_Media = []\<rparr>;
         post = (case cpr_Status req of
                   Some st \<Rightarrow> post\<lparr>post_Status := st\<rparr> | None \<Rightarrow> post)
     in case insert_content_post now (post_row.truncate post) tx of
          Inl err \<Rightarrow>
            (Inl (case err of
                    PgError code \<Rightarrow>
                      if code = ''23505'' then ErrDuplicate
                      else if code = ''23503'' then ErrForeignKey
                      else Wrapped ''failed to create post'' err
                  | ErrNoRows \<Rightarrow> Wrapped ''failed to create post'' err),
             db)
        | Inr (tx, stored) \<Rightarrow>
            (let post = post\<lparr>post_ViewCount := post_ViewCount stored,
                             post_CreatedAt := post_CreatedAt stored,
                             post_UpdatedAt := post_UpdatedAt stored\<rparr>
             in case (if length (cpr_TagIDs req) > 0
                      then attachTagsTx now (post_ID post) (cpr_TagIDs req) tx
                      else Inr tx) of
                  Inl err \<Rightarrow> (Inl err, db)
                | Inr tx \<Rightarrow> (Inr post, tx)))"

text \<open>
  \<^verbatim>\<open>getPostTags\<close> and \<^verbatim>\<open>getPostMedia\<close>: the joins in table order, then \<^verbatim>\<open>ORDER BY\<close>
  as a stable sort (names compared bytewise).
\<close>

definition getPostTags :: "uuid \<Rightarrow> database \<Rightarrow> Tag list" where
  "getPostTags postID db =
     sort_key tag_Name
       (concat (map (\<lambda>t. map (\<lambda>pt. t)
                      (filter (\<lambda>pt. pt_TagID pt = tag_ID t \<and> pt_PostID pt = postID)
                         (post_tags db)))
                  (tags db)))"

definition getPostMedia :: "uuid \<Rightarrow> database \<Rightarrow> PostMedia list" where
  "getPostMedia postID db =
     sort_key (\<lambda>pm. sint (pm_DisplayOrder pm))
       (concat (map (\<lambda>pm. map (\<lambda>m. post_media_row.extend pm (PostMedia.fields (Some m)))
                      (filter (\<lambda>m. media_ID m = pm_MediaID pm) (media db)))
                  (filter (\<lambda>pm. pm_PostID pm = postID) (post_media db))))"


text \<open>
  \<^verbatim>\<open>GetByID\<close>: the post joined with its content type and its author (no row when any
  of the three is missing), then the tags and the media.
\<close>

definition ContentPostRepository_GetByID :: "uuid \<Rightarrow> database \<Rightarrow> repo_error + ContentPost" where
  "ContentPostRepository_GetByID pid db =
    (case find (\<lambda>r. post_ID r = pid) (content_posts db) of
       None \<Rightarrow> Inl ErrNotFound
     | Some cp \<Rightarrow>
        (case find (\<lambda>c. ct_ID c = post_ContentTypeID cp) (content_types db) of
           None \<Rightarrow> Inl ErrNotFound
         | Some ct \<Rightarrow>
            (case find (\<lambda>u. user_ID u = post_AuthorID cp) (users db) of
               None \<Rightarrow> Inl ErrNotFound
             | Some u \<Rightarrow>
                Inr (post_row.extend cp
                      (ContentPost.fields
                        (Some ct)
                        (Some \<lparr>ur_ID = user_ID u, ur_Email = user_Email u,
                               ur_FullName = user_FullName u, ur_Role = user_Role u,
                               ur_IsActive = user_IsActive u,
                               ur_LastLogin = user_LastLogin u,
                               ur_CreatedAt = user_CreatedAt u,
                               ur_UpdatedAt = user_UpdatedAt u\<rparr>)
                        (getPostTags (post_ID cp) db)
                        (getPostMedia (post_ID cp) db))))))"

text \<open>The \<^verbatim>\<open>setClauses\<close> of \<^verbatim>\<open>Update\<close>, one per field the request carries.\<close>

definition post_setClauses :: "UpdatePostRequest \<Rightarrow> post_set list" where
  "post_setClauses req =
     (case upr_ContentTypeID req of Some v \<Rightarrow> [Set_content_type_id v] | None \<Rightarrow> []) @
     (case upr_Title req of Some v \<Rightarrow> [Set_title v] | None \<Rightarrow> []) @
     (case upr_Slug req of Some v \<Rightarrow> [Set_slug v] | None \<Rightarrow> []) @
     (case upr_Excerpt req of Some v \<Rightarrow> [Set_excerpt v] | None \<Rightarrow> []) @
     (case upr_Content req of Some v \<Rightarrow> [Set_content v] | None \<Rightarrow> []) @
     (case upr_Metadata req of Some v \<Rightarrow> [Set_metadata v] | None \<Rightarrow> []) @
     (case upr_Status req of Some v \<Rightarrow> [Set_status v] | None \<Rightarrow> []) @
     (case upr_PublishedAt req of Some v \<Rightarrow> [Set_published_at v] | None \<Rightarrow> [])"

definition ContentPostRepository_Update ::
  "timestamp \<Rightarrow> uuid \<Rightarrow> UpdatePostRequest \<Rightarrow> database
     \<Rightarrow> (repo_error + ContentPost) \<times> database" where
  "ContentPostRepository_Update now pid req db =
    (let tx = db;
         setClauses = post_setClauses req
     in case (if length setClauses > 0
              then (case update_content_post now setClauses pid tx of
                      Inl err \<Rightarrow>
                        Inl (case err of
                               PgError code \<Rightarrow>
                                 if code = ''23505'' then ErrDuplicate
                                 else if code = ''23503'' then ErrForeignKey
                                 else Wrapped ''failed to update post'' err
                             | ErrNoRows \<Rightarrow> Wrapped ''failed to update post'' err)
                    | Inr (tx, rowsAffected) \<Rightarrow>
                        if rowsAffected = 0 then Inl ErrNotFound else Inr tx)
              else Inr tx) of
          Inl err \<Rightarrow> (Inl err, db)
        | Inr tx \<Rightarrow>
            (case (case upr_TagIDs req of
                     None \<Rightarrow> Inr tx
                   | Some tagIDs \<Rightarrow>
                       (let tx = delete_post_tags pid tx
                        in if length tagIDs > 0
                           then attachTagsTx now pid tagIDs tx
                           else Inr tx)) of
               Inl err \<Rightarrow> (Inl err, db)
             | Inr tx \<Rightarrow> (ContentPostRepository_GetByID pid tx, tx)))"

subsection \<open>TagRepository\<close>

definition TagRepository_GetByID :: "uuid \<Rightarrow> database \<Rightarrow> repo_error + Tag" where
  "TagRepository_GetByID tid db =
    (case find (\<lambda>t. tag_ID t = tid) (tags db) of
       None \<Rightarrow> Inl ErrNotFound
     | Some tag \<Rightarrow> Inr tag)"

datatype tag_set = Set_tag_name string | Set_tag_slug string

fun apply_tag_set :: "Tag \<Rightarrow> tag_set \<Rightarrow> Tag" where
  "apply_tag_set t (Set_tag_name v) = t\<lparr>tag_Name := v\<rparr>"
| "apply_tag_set t (Set_tag_slug v) = t\<lparr>tag_Slug := v\<rparr>"

text \<open>\<^verbatim>\<open>UPDATE tags SET ... WHERE id = $n RETURNING ...\<close>; name and slug are unique.\<close>

definition update_tag :: "tag_set list \<Rightarrow> uuid \<Rightarrow> database \<Rightarrow> db_error + database \<times> Tag" where
  "update_tag sets tid db =
    (case find (\<lambda>t. tag_ID t = tid) (tags db) of
       None \<Rightarrow> Inl ErrNoRows
     | Some old \<Rightarrow>
        (let upd = (\<lambda>t. foldl apply_tag_set t sets);
             new = upd old
         in if list_ex (\<lambda>t. tag_ID t \<noteq> tid \<and> (tag_Name t = tag_Name new \<or> tag_Slug t = tag_Slug new))
                 (tags db)
            then Inl unique_violation
            else Inr (db\<lparr>tags := map (\<lambda>t. if tag_ID t = tid then upd t else t) (tags db)\<rparr>,
                      new)))"

definition TagRepository_Update ::
  "uuid \<Rightarrow> UpdateTagRequest \<Rightarrow> database \<Rightarrow> (repo_error + Tag) \<times> database" where
  "TagRepository_Update tid req db =
    (let setClauses =
           (case utr_Name req of Some v \<Rightarrow> [Set_tag_name v] | None \<Rightarrow> []) @
           (case utr_Slug req of Some v \<Rightarrow> [Set_tag_slug v] | None \<Rightarrow> [])
     in if length setClauses = 0 then (TagRepository_GetByID tid db, db)
        else (case update_tag setClauses tid db of
                Inl err \<Rightarrow>
                  (Inl (case err of
                          ErrNoRows \<Rightarrow> ErrNotFound
                        | PgError code \<Rightarrow>
                            if code = ''23505'' then ErrDuplicate
                            else Wrapped ''failed to update tag'' err),
                   db)
              | Inr (db', tag) \<Rightarrow> (Inr tag, db')))"

subsection \<open>MediaRepository\<close>

definition MediaRepository_GetByID :: "uuid \<Rightarrow> database \<Rightarrow> repo_error + Media" where
  "MediaRepository_GetByID mid db =
    (case find (\<lambda>m. media_ID m = mid) (media db) of
       None \<Rightarrow> Inl ErrNotFound
     | Some m \<Rightarrow> Inr m)"

datatype media_set =
    Set_file_name string
  | Set_cdn_url string
  | Set_dimensions json
  | Set_variants json
  | Set_alt_text string

fun apply_media_set :: "Media \<Rightarrow> media_set \<Rightarrow> Media" where
  "apply_media_set m (Set_file_name v) = m\<lparr>media_FileName := v\<rparr>"
| "apply_media_set m (Set_cdn_url v) = m\<lparr>media_CDNUrl := Some v\<rparr>"
| "apply_media_set m (Set_dimensions v) = m\<lparr>media_Dimensions := Some v\<rparr>"
| "apply_media_set m (Set_variants v) = m\<lparr>media_Variants := Some v\<rparr>"
| "apply_media_set m (Set_alt_text v) = m\<lparr>media_AltText := Some v\<rparr>"

text \<open>\<^verbatim>\<open>UPDATE media SET ... WHERE id = $n RETURNING ...\<close>; no updated column is constrained.\<close>

definition update_media :: "media_set list \<Rightarrow> uuid \<Rightarrow> database \<Rightarrow> db_error + database \<times> Media" where
  "update_media sets mid db =
    (case find (\<lambda>m. media_ID m = mid) (media db) of
       None \<Rightarrow> Inl ErrNoRows
     | Some old \<Rightarrow>
        (let upd = (\<lambda>m. foldl apply_media_set m sets)
         in Inr (db\<lparr>media := map (\<lambda>m. if media_ID m = mid then upd m else m) (media db)\<rparr>,
                 upd old)))"

definition MediaRepository_Update ::
  "uuid \<Rightarrow> UpdateMediaRequest \<Rightarrow> database \<Rightarrow> (repo_error + Media) \<times> database" where
  "MediaRepository_Update mid req db =
    (let setClauses =
           (case umr_FileName req of Some v \<Rightarrow> [Set_file_name v] | None \<Rightarrow> []) @
           (case umr_CDNUrl req of Some v \<Rightarrow> [Set_cdn_url v] | None \<Rightarrow> []) @
           (case umr_Dimensions req of Some v \<Rightarrow> [Set_dimensions v] | None \<Rightarrow> []) @
           (case umr_Variants req of Some v \<Rightarrow> [Set_variants v] | None \<Rightarrow> []) @
           (case umr_AltText req of Some v \<Rightarrow> [Set_alt_text v] | None \<Rightarrow> [])
     in if length setClauses = 0 then (MediaRepository_GetByID mid db, db)
        else (case update_media setClauses mid db of
                Inl err \<Rightarrow>
                  (Inl (case err of
                          ErrNoRows \<Rightarrow> ErrNotFound
                        | PgError code \<Rightarrow> Wrapped ''failed to update media'' err),
                   db)
              | Inr (db', m) \<Rightarrow> (Inr m, db')))"

subsection \<open>SettingRepository\<close>

definition SettingRepository_GetByKey :: "string \<Rightarrow> database \<Rightarrow> repo_error + Setting" where
  "SettingRepository_GetByKey k db =
    (case find (\<lambda>r. setting_Key r = k) (settings db) of
       None \<Rightarrow> Inl ErrNotFound
     | Some setting \<Rightarrow> Inr setting)"

datatype setting_set = Set_value string | Set_description string

fun apply_setting_set :: "Setting \<Rightarrow> setting_set \<Rightarrow> Setting" where
  "apply_setting_set r (Set_value v) = r\<lparr>setting_Value := Some v\<rparr>"
| "apply_setting_set r (Set_description v) = r\<lparr>setting_Description := Some v\<rparr>"

text \<open>
  \<^verbatim>\<open>UPDATE settings SET ... WHERE key = $n RETURNING ...\<close>; the trigger stamps
  \<^verbatim>\<open>updated_at\<close>.
\<close>

definition update_setting ::
  "timestamp \<Rightarrow> setting_set list \<Rightarrow> string \<Rightarrow> database \<Rightarrow> db_error + database \<times> Setting" where
  "update_setting now sets k db =
    (case find (\<lambda>r. setting_Key r = k) (settings db) of
       None \<Rightarrow> Inl ErrNoRows
     | Some old \<Rightarrow>
        (let upd = (\<lambda>r. (foldl apply_setting_set r sets)\<lparr>setting_UpdatedAt := now\<rparr>)
         in Inr (db\<lparr>settings :=
                      map (\<lambda>r. if setting_Key r = k then upd r else r) (settings db)\<rparr>,
                 upd old)))"

definition SettingRepository_Update ::
  "timestamp \<Rightarrow> string \<Rightarrow> UpdateSettingRequest \<Rightarrow> database
     \<Rightarrow> (repo_error + Setting) \<times> database" where
  "SettingRepository_Update now k req db =
    (let setClauses =
           (case usr_Value req of Some v \<Rightarrow> [Set_value v] | None \<Rightarrow> []) @
           (case usr_Description req of Some v \<Rightarrow> [Set_description v] | None \<Rightarrow> [])
     in if length setClauses = 0 then (SettingRepository_GetByKey k db, db)
        else (case update_setting now setClauses k db of
                Inl err \<Rightarrow>
                  (Inl (case err of
                          ErrNoRows \<Rightarrow> ErrNotFound
                        | PgError code \<Rightarrow> Wrapped ''failed to update setting'' err),
                   db)
              | Inr (db', setting) \<Rightarrow> (Inr setting, db')))"

text \<open>
  \<^verbatim>\<open>INSERT INTO settings (id, key, value, description) VALUES ($1, $2, $3, $4)
  ON CONFLICT (key) DO UPDATE SET value = EXCLUDED.value, description =
  EXCLUDED.description RETURNING id, updated_at\<close>. The proposed key is first fitted to
  the column \<^verbatim>\<open>key VARCHAR(100)\<close>. A row with the key is then updated in place (and the
  trigger stamps it); otherwise the row is inserted, and its identifier must be new.
\<close>

definition upsert_setting ::
  "timestamp \<Rightarrow> Setting \<Rightarrow> database \<Rightarrow> db_error + database \<times> uuid \<times> timestamp" where
  "upsert_setting now row db =
    (case varchar 100 (setting_Key row) of
       Inl err \<Rightarrow> Inl err
     | Inr key \<Rightarrow>
        (let row = row\<lparr>setting_Key := key\<rparr>
         in case find (\<lambda>r. setting_Key r = setting_Key row) (settings db) of
              Some old \<Rightarrow>
                (let upd = (\<lambda>r. r\<lparr>setting_Value := setting_Value row,
                                   setting_Description := setting_Description row,
                                   setting_UpdatedAt := now\<rparr>)
                 in Inr (db\<lparr>settings :=
                              map (\<lambda>r. if setting_Key r = setting_Key row then upd r else r)
                                (settings db)\<rparr>,
                         setting_ID old, now))
            | None \<Rightarrow>
                if list_ex (\<lambda>r. setting_ID r = setting_ID row) (settings db)
                then Inl unique_violation
                else Inr (db\<lparr>settings := settings db @ [row\<lparr>setting_UpdatedAt := now\<rparr>]\<rparr>,
                          setting_ID row, now)))"

definition SettingRepository_Upsert ::
  "uuid \<Rightarrow> timestamp \<Rightarrow> CreateSettingRequest \<Rightarrow> database
     \<Rightarrow> (repo_error + Setting) \<times> database" where
  "SettingRepository_Upsert new_id now req db =
    (let setting = \<lparr>setting_ID = new_id, setting_Key = csr_Key req,
                    setting_Value = csr_Value req,
                    setting_Description = csr_Description req,
                    setting_UpdatedAt = 0\<rparr>
     in case upsert_setting now setting db of
          Inl err \<Rightarrow> (Inl (Wrapped ''failed to upsert setting'' err), db)
        | Inr (db', rid, updated_at) \<Rightarrow>
            (Inr (setting\<lparr>setting_ID := rid, setting_UpdatedAt := updated_at\<rparr>), db'))"

subsection \<open>ContentTypeRepository\<close>

definition ContentTypeRepository_GetByID :: "uuid \<Rightarrow> database \<Rightarrow> repo_error + ContentType" where
  "ContentTypeRepository_GetByID cid db =
    (case find (\<lambda>c. ct_ID c = cid) (content_types db) of
       None \<Rightarrow> Inl ErrNotFound
     | Some ct \<Rightarrow> Inr ct)"

datatype content_type_set =
    Set_ct_name string
  | Set_ct_slug string
  | Set_schema_fields json
  | Set_is_active bool
  | Set_display_order go_int

fun apply_content_type_set :: "ContentType \<Rightarrow> content_type_set \<Rightarrow> ContentType" where
  "apply_content_type_set c (Set_ct_name v) = c\<lparr>ct_Name := v\<rparr>"
| "apply_content_type_set c (Set_ct_slug v) = c\<lparr>ct_Slug := v\<rparr>"
| "apply_content_type_set c (Set_schema_fields v) = c\<lparr>ct_SchemaFields := Some v\<rparr>"
| "apply_content_type_set c (Set_is_active v) = c\<lparr>ct_IsActive := v\<rparr>"
| "apply_content_type_set c (Set_display_order v) = c\<lparr>ct_DisplayOrder := v\<rparr>"

text \<open>
  \<^verbatim>\<open>UPDATE content_types SET ... WHERE id = $n RETURNING ...\<close>; name and slug are
  unique and the trigger stamps \<^verbatim>\<open>updated_at\<close>.
\<close>

definition update_content_type ::
  "timestamp \<Rightarrow> content_type_set list \<Rightarrow> uuid \<Rightarrow> database
     \<Rightarrow> db_error + database \<times> ContentType" where
  "update_content_type now sets cid db =
    (case find (\<lambda>c. ct_ID c = cid) (content_types db) of
       None \<Rightarrow> Inl ErrNoRows
     | Some old \<Rightarrow>
        (let upd = (\<lambda>c. (foldl apply_content_type_set c sets)\<lparr>ct_UpdatedAt := now\<rparr>);
             new = upd old
         in if list_ex (\<lambda>c. ct_ID c \<noteq> cid \<and> (ct_Name c = ct_Name new \<or> ct_Slug c = ct_Slug new))
                 (content_types db)
            then Inl unique_violation
            else Inr (db\<lparr>content_types :=
                          map (\<lambda>c. if ct_ID c = cid then upd c else c) (content_types db)\<rparr>,
                      new)))"

definition ContentTypeRepository_Update ::
  "timestamp \<Rightarrow> uuid \<Rightarrow> UpdateContentTypeRequest \<Rightarrow> database
     \<Rightarrow> (repo_error + ContentType) \<times> database" where
  "ContentTypeRepository_Update now cid req db =
    (let setClauses =
           (case uctr_Name req of Some v \<Rightarrow> [Set_ct_name v] | None \<Rightarrow> []) @
           (case uctr_Slug req of Some v \<Rightarrow> [Set_ct_slug v] | None \<Rightarrow> []) @
           (case uctr_SchemaFields req of Some v \<Rightarrow> [Set_schema_fields v] | None \<Rightarrow> []) @
           (case uctr_IsActive req of Some v \<Rightarrow> [Set_is_active v] | None \<Rightarrow> []) @
           (case uctr_DisplayOrder req of Some v \<Rightarrow> [Set_display_order v] | None \<Rightarrow> [])
     in if length setClauses = 0 then (ContentTypeRepository_GetByID cid db, db)
        else (case update_content_type now setClauses cid db of
                Inl err \<Rightarrow>
                  (Inl (case err of
                          ErrNoRows \<Rightarrow> ErrNotFound
                        | PgError code \<Rightarrow>
                            if code = ''23505'' then ErrDuplicate
                            else Wrapped ''failed to update content type'' err),
                   db)
              | Inr (db', ct) \<Rightarrow> (Inr ct, db')))"

text \<open>
  \<^verbatim>\<open>DELETE FROM content_types WHERE id = $1\<close>, with the number of rows affected:
  \<^verbatim>\<open>content_posts.content_type_id\<close> references the table \<^verbatim>\<open>ON DELETE RESTRICT\<close>, so a
  row some post refers to cannot go.
\<close>

definition delete_content_type :: "uuid \<Rightarrow> database \<Rightarrow> db_error + database \<times> nat" where
  "delete_content_type cid db =
    (if list_ex (\<lambda>c. ct_ID c = cid) (content_types db)
        \<and> list_ex (\<lambda>r. post_ContentTypeID r = cid) (content_posts db)
     then Inl foreign_key_violation
     else Inr (db\<lparr>content_types := filter (\<lambda>c. ct_ID c \<noteq> cid) (content_types db)\<rparr>,
               length (filter (\<lambda>c. ct_ID c = cid) (content_types db))))"

definition ContentTypeRepository_Delete ::
  "uuid \<Rightarrow> database \<Rightarrow> (repo_error + unit) \<times> database" where
  "ContentTypeRepository_Delete cid db =
    (case delete_content_type cid db of
       Inl err \<Rightarrow>
         (Inl (case err of
                 PgError code \<Rightarrow>
                   if code = ''23503'' then ErrForeignKey
                   else Wrapped ''failed to delete content type'' err
               | ErrNoRows \<Rightarrow> Wrapped ''failed to delete content type'' err),
          db)
     | Inr (db', rowsAffected) \<Rightarrow>
         if rowsAffected = 0 then (Inl ErrNotFound, db') else (Inr (), db'))"

subsection \<open>ContactRepository\<close>

definition ContactRepository_GetByID :: "uuid \<Rightarrow> database \<Rightarrow> repo_error + ContactSubmission" where
  "ContactRepository_GetByID cid db =
    (case find (\<lambda>c. contact_ID c = cid) (contact_submissions db) of
       None \<Rightarrow> Inl ErrNotFound
     | Some contact \<Rightarrow> Inr contact)"

datatype contact_set = Set_contact_status int16 | Set_read_at timestamp

fun apply_contact_set :: "ContactSubmission \<Rightarrow> contact_set \<Rightarrow> ContactSubmission" where
  "apply_contact_set c (Set_contact_status v) = c\<lparr>contact_Status := v\<rparr>"
| "apply_contact_set c (Set_read_at v) = c\<lparr>contact_ReadAt := Some v\<rparr>"

text \<open>
  \<^verbatim>\<open>UPDATE contact_submissions SET ... WHERE id = $n RETURNING ...\<close>. The new version
  of the row (there is one row at most, \<^verbatim>\<open>id\<close> being the primary key) has to pass
  \<^verbatim>\<open>CHECK (status BETWEEN 1 AND 4)\<close>; a statement that matches no row checks nothing.
\<close>

definition update_contact_submission ::
  "contact_set list \<Rightarrow> uuid \<Rightarrow> database \<Rightarrow> db_error + database \<times> ContactSubmission" where
  "update_contact_submission sets cid db =
    (case find (\<lambda>c. contact_ID c = cid) (contact_submissions db) of
       None \<Rightarrow> Inl ErrNoRows
     | Some old \<Rightarrow>
        (let upd = (\<lambda>c. foldl apply_contact_set c sets)
         in if \<not> (1 \<le>s contact_Status (upd old) \<and> contact_Status (upd old) \<le>s 4)
            then Inl check_violation
            else Inr (db\<lparr>contact_submissions :=
                           map (\<lambda>c. if contact_ID c = cid then upd c else c)
                             (contact_submissions db)\<rparr>,
                      upd old)))"

text \<open>
  \<^verbatim>\<open>Update\<close> appends \<^verbatim>\<open>read_at = time.Now()\<close> to the assignments whenever the request
  sets the status to \<^verbatim>\<open>ContactStatusRead\<close>.
\<close>

definition ContactRepository_Update ::
  "timestamp \<Rightarrow> uuid \<Rightarrow> UpdateContactRequest \<Rightarrow> database
     \<Rightarrow> (repo_error + ContactSubmission) \<times> database" where
  "ContactRepository_Update now cid req db =
    (let setClauses =
           (case ucr_Status req of
              Some st \<Rightarrow>
                [Set_contact_status st] @
                (if st = ContactStatusRead then [Set_read_at now] else [])
            | None \<Rightarrow> [])
     in if length setClauses = 0 then (ContactRepository_GetByID cid db, db)
        else (case update_contact_submission setClauses cid db of
                Inl err \<Rightarrow>
                  (Inl (case err of
                          ErrNoRows \<Rightarrow> ErrNotFound
                        | PgError code \<Rightarrow> Wrapped ''failed to update contact submission'' err),
                   db)
              | Inr (db', contact) \<Rightarrow> (Inr contact, db')))"

section \<open>Responses and handlers (packages response and handlers)\<close>

text \<open>
  What a handler writes: \<^verbatim>\<open>response.JSON\<close> with a status and the data of a success
  envelope, \<^verbatim>\<open>response.Error\<close> with status, code and message,
  \<^verbatim>\<open>response.ErrorWithDetails\<close>, or \<^verbatim>\<open>response.NoContent\<close>.
\<close>

datatype 'a response =
    JSON nat 'a
  | Error nat string string
  | ErrorWithDetails nat string string "(string \<times> string) list"
  | NoContent

definition BadRequest :: "string \<Rightarrow> 'a response" where
  "BadRequest message = Error 400 ''BAD_REQUEST'' message"

definition NotFound :: "string \<Rightarrow> 'a response" where
  "NotFound message = Error 404 ''NOT_FOUND'' message"

definition InternalError :: "string \<Rightarrow> 'a response" where
  "InternalError message = Error 500 ''INTERNAL_ERROR'' message"

definition InternalErrorWithErr :: "string \<Rightarrow> repo_error \<Rightarrow> 'a response" where
  "InternalErrorWithErr message err = Error 500 ''INTERNAL_ERROR'' message"

definition Conflict :: "string \<Rightarrow> 'a response" where
  "Conflict message = Error 409 ''CONFLICT'' message"

definition ValidationError :: "(string \<times> string) list \<Rightarrow> 'a response" where
  "ValidationError details =
     ErrorWithDetails 422 ''VALIDATION_ERROR'' ''Validation failed'' details"

definition Created :: "'a \<Rightarrow> 'a response" where
  "Created data = JSON 201 data"

definition OK :: "'a \<Rightarrow> 'a response" where
  "OK data = JSON 200 data"

text \<open>
  A handler receives the decoded request body (\<open>None\<close> when \<^verbatim>\<open>decodeJSON\<close> fails) and
  the parsed path parameter (\<open>None\<close> when \<^verbatim>\<open>parseUUID\<close> fails).
\<close>

definition ContentPostHandler_Create ::
  "uuid \<Rightarrow> timestamp \<Rightarrow> CreatePostRequest option \<Rightarrow> database
     \<Rightarrow> ContentPost response \<times> database" where
  "ContentPostHandler_Create new_id now body db =
    (case body of
       None \<Rightarrow> (BadRequest ''Invalid request body'', db)
     | Some req \<Rightarrow>
        (let validationErrors =
               (if cpr_Title req = [] then [(''title'', ''Title is required'')] else []) @
               (if cpr_Slug req = [] then [(''slug'', ''Slug is required'')] else []) @
               (if cpr_ContentTypeID req = uuid_Nil
                then [(''content_type_id'', ''Content type ID is required'')] else []) @
               (if cpr_AuthorID req = uuid_Nil
                then [(''author_id'', ''Author ID is required'')] else [])
         in if length validationErrors > 0 then (ValidationError validationErrors, db)
            else (case ContentPostRepository_Create new_id now req db of
                    (Inl err, db') \<Rightarrow>
                      (if err = ErrDuplicate
                       then Conflict ''Post with this slug already exists''
                       else if err = ErrForeignKey
                       then BadRequest ''Invalid content type ID or author ID''
                       else InternalErrorWithErr ''Failed to create post'' err,
                       db')
                  | (Inr post, db') \<Rightarrow> (Created post, db'))))"

definition ContentPostHandler_Update ::
  "timestamp \<Rightarrow> uuid option \<Rightarrow> UpdatePostRequest option \<Rightarrow> database
     \<Rightarrow> ContentPost response \<times> database" where
  "ContentPostHandler_Update now path_id body db =
    (case path_id of
       None \<Rightarrow> (BadRequest ''Invalid post ID'', db)
     | Some pid \<Rightarrow>
        (case body of
           None \<Rightarrow> (BadRequest ''Invalid request body'', db)
         | Some req \<Rightarrow>
            (case ContentPostRepository_Update now pid req db of
               (Inl err, db') \<Rightarrow>
                 (if err = ErrNotFound then NotFound ''Post not found''
                  else if err = ErrDuplicate
                  then Conflict ''Post with this slug already exists''
                  else if err = ErrForeignKey
                  then BadRequest ''Invalid content type ID''
                  else InternalError ''Failed to update post'',
                  db')
             | (Inr post, db') \<Rightarrow> (OK post, db'))))"

definition ContentTypeHandler_Delete ::
  "uuid option \<Rightarrow> database \<Rightarrow> unit response \<times> database" where
  "ContentTypeHandler_Delete path_id db =
    (case path_id of
       None \<Rightarrow> (BadRequest ''Invalid content type ID'', db)
     | Some cid \<Rightarrow>
        (case ContentTypeRepository_Delete cid db of
           (Inl err, db') \<Rightarrow>
             (if err = ErrNotFound then NotFound ''Content type not found''
              else if err = ErrForeignKey
              then Conflict ''Cannot delete content type with existing posts''
              else InternalError ''Failed to delete content type'',
              db')
         | (Inr u, db') \<Rightarrow> (NoContent, db')))"

section \<open>A sample database\<close>

text \<open>
  One author, two content types (only the first one has a post), one post tagged
  \<open>news\<close> with one attached image, a second tag, two contact submissions (one new,
  one already read) and one setting.
\<close>

definition sample_user :: User where
  "sample_user =
     \<lparr>user_ID = 1, user_Email = ''ann@example.org'', user_PasswordHash = ''x'',
      user_FullName = ''Ann'', user_Role = 2, user_IsActive = True,
      user_LastLogin = None, user_CreatedAt = 10, user_UpdatedAt = 10\<rparr>"

definition sample_article_type :: ContentType where
  "sample_article_type =
     \<lparr>ct_ID = 2, ct_Name = ''Article'', ct_Slug = ''article'', ct_SchemaFields = None,
      ct_IsActive = True, ct_DisplayOrder = 0, ct_CreatedAt = 11, ct_UpdatedAt = 11\<rparr>"

definition sample_page_type :: ContentType where
  "sample_page_type =
     \<lparr>ct_ID = 3, ct_Name = ''Page'', ct_Slug = ''page'', ct_SchemaFields = None,
      ct_IsActive = True, ct_DisplayOrder = 1, ct_CreatedAt = 12, ct_UpdatedAt = 12\<rparr>"

definition sample_post :: post_row where
  "sample_post =
     \<lparr>post_ID = 4, post_ContentTypeID = 2, post_AuthorID = 1, post_Title = ''Hello'',
      post_Slug = ''hello'', post_Excerpt = None, post_Content = Some ''Hello, world'',
      post_Metadata = None, post_Status = 1, post_PublishedAt = None, post_ViewCount = 0,
      post_CreatedAt = 13, post_UpdatedAt = 13\<rparr>"

definition sample_news_tag :: Tag where
  "sample_news_tag = \<lparr>tag_ID = 5, tag_Name = ''news'', tag_Slug = ''news'', tag_CreatedAt = 14\<rparr>"

definition sample_go_tag :: Tag where
  "sample_go_tag = \<lparr>tag_ID = 6, tag_Name = ''go'', tag_Slug = ''go'', tag_CreatedAt = 15\<rparr>"

definition sample_image :: Media where
  "sample_image =
     \<lparr>media_ID = 7, media_FileName = ''a.png'', media_ObjectKey = ''img/a.png'',
      media_BucketName = ''cms'', media_CDNUrl = None, media_FileType = 1,
      media_MimeType = ''image/png'', media_FileSize = 2048, media_Dimensions = None,
      media_Variants = None, media_AltText = None, media_Checksum = None,
      media_CreatedAt = 16\<rparr>"

definition sample_new_contact :: ContactSubmission where
  "sample_new_contact =
     \<lparr>contact_ID = 9, contact_Name = ''Bob'', contact_Email = ''bob@example.org'',
      contact_Phone = None, contact_Subject = None, contact_Message = ''Hi'',
      contact_Status = 1, contact_IPAddress = None, contact_UserAgent = None,
      contact_Metadata = None, contact_ReadAt = None, contact_CreatedAt = 18\<rparr>"

definition sample_read_contact :: ContactSubmission where
  "sample_read_contact =
     \<lparr>contact_ID = 10, contact_Name = ''Eve'', contact_Email = ''eve@example.org'',
      contact_Phone = None, contact_Subject = None, contact_Message = ''Hello'',
      contact_Status = 2, contact_IPAddress = None, contact_UserAgent = None,
      contact_Metadata = None, contact_ReadAt = Some 50, contact_CreatedAt = 19\<rparr>"

definition sample_setting :: Setting where
  "sample_setting =
     \<lparr>setting_ID = 11, setting_Key = ''site_name'', setting_Value = Some ''CMS'',
      setting_Description = None, setting_UpdatedAt = 20\<rparr>"

definition sample_db :: database where
  "sample_db =
     \<lparr>users = [sample_user],
      content_types = [sample_article_type, sample_page_type],
      content_posts = [sample_post],
      media = [sample_image],
      post_media =
        [\<lparr>pm_ID = 8, pm_PostID = 4, pm_MediaID = 7, pm_MediaRole = 1,
          pm_DisplayOrder = 0, pm_CreatedAt = 17\<rparr>],
      tags = [sample_news_tag, sample_go_tag],
      post_tags = [\<lparr>pt_PostID = 4, pt_TagID = 5, pt_CreatedAt = 14\<rparr>],
      contact_submissions = [sample_new_contact, sample_read_contact],
      settings = [sample_setting]\<rparr>"

section \<open>Consistent databases\<close>

text \<open>
  The foreign keys the schema declares between the modelled tables: every post has its
  content type and its author, every \<^verbatim>\<open>post_media\<close> row its post and its media, every
  \<^verbatim>\<open>post_tags\<close> row its post and its tag.
\<close>

definition foreign_keys_hold :: "database \<Rightarrow> bool" where
  "foreign_keys_hold db \<longleftrightarrow>
     list_all (\<lambda>r. list_ex (\<lambda>c. ct_ID c = post_ContentTypeID r) (content_types db)
                 \<and> list_ex (\<lambda>u. user_ID u = post_AuthorID r) (users db))
       (content_posts db) \<and>
     list_all (\<lambda>pm. list_ex (\<lambda>r. post_ID r = pm_PostID pm) (content_posts db)
                  \<and> list_ex (\<lambda>m. media_ID m = pm_MediaID pm) (media db))
       (post_media db) \<and>
     list_all (\<lambda>pt. list_ex (\<lambda>r. post_ID r = pt_PostID pt) (content_posts db)
                  \<and> list_ex (\<lambda>t. tag_ID t = pt_TagID pt) (tags db))
       (post_tags db)"

text \<open>A request for a second post of the sample author, tagged \<open>news\<close>.\<close>

definition sample_create_request :: CreatePostRequest where
  "sample_create_request =
     \<lparr>cpr_ContentTypeID = 2, cpr_AuthorID = 1, cpr_Title = ''Second'',
      cpr_Slug = ''second'', cpr_Excerpt = None, cpr_Content = None, cpr_Metadata = None,
      cpr_Status = None, cpr_PublishedAt = None, cpr_TagIDs = [5]\<rparr>"

chapter \<open>Properties\<close>

section \<open>Arithmetic of the pagination primitive\<close>

lemma sint_in_range: "- (2 ^ 63) \<le> sint (w :: 64 word) \<and> sint w < 2 ^ 63"
  using sint_ge [of w] sint_lt [of w] by simp

lemma sint_word_of_int_64:
  "- (2 ^ 63) \<le> k \<Longrightarrow> k < 2 ^ 63 \<Longrightarrow> sint (word_of_int k :: 64 word) = k"
  by (simp add: sint_sbintrunc' signed_take_bit_int_eq_self)

lemma div_le_self_int: "0 \<le> (t::int) \<Longrightarrow> t div s \<le> t"
  by (cases "t = 0") (simp_all add: int_div_le_self)

lemma ceiling_div_mod:
  fixes t s :: int
  assumes "0 < s"
  shows "\<lceil>real_of_int t / real_of_int s\<rceil> = t div s + (if 0 < t mod s then 1 else 0)"
proof -
  have "\<lceil>real_of_int t / real_of_int s\<rceil> = - (- t div s)"
    by (simp add: ceiling_divide_eq_div)
  also have "\<dots> = t div s + (if 0 < t mod s then 1 else 0)"
  proof (cases "t mod s = 0")
    case True
    then show ?thesis using assms by (simp add: zdiv_zminus1_eq_if)
  next
    case False
    have "0 \<le> t mod s" using assms by simp
    then have "0 < t mod s" using False by linarith
    then show ?thesis using assms by (simp add: zdiv_zminus1_eq_if)
  qed
  finally show ?thesis .
qed

text \<open>On a non-negative dividend and a positive divisor Go's quotient and remainder
  are the mathematical ones, and neither panics.\<close>

lemma go_quo_nonneg:
  assumes "0 \<le> sint x" "0 < sint y"
  shows "\<exists>q. go_quo x y = Inr q \<and> sint q = sint x div sint y"
proof -
  have y0: "y \<noteq> 0" using assms(2) by auto
  have eq: "sint x sdiv sint y = sint x div sint y"
    using assms by (simp add: signed_divide_int_def sgn_if)
  have "0 \<le> sint x div sint y" using assms by (simp add: pos_imp_zdiv_nonneg_iff)
  moreover have "sint x div sint y \<le> sint x"
    using assms by (simp add: div_le_self_int)
  ultimately have "sint (word_of_int (sint x div sint y) :: 64 word) = sint x div sint y"
    using sint_in_range [of x] by (intro sint_word_of_int_64) auto
  then show ?thesis using y0 eq by (simp add: go_quo_def)
qed

lemma go_rem_nonneg:
  assumes "0 \<le> sint x" "0 < sint y"
  shows "\<exists>r. go_rem x y = Inr r \<and> sint r = sint x mod sint y"
proof -
  have y0: "y \<noteq> 0" using assms(2) by auto
  have eq: "sint x smod sint y = sint x mod sint y"
    using assms by (simp add: signed_modulo_int_def sgn_if)
  have "0 \<le> sint x mod sint y" using assms by simp
  moreover have "sint x mod sint y < sint y"
    using assms by simp
  ultimately have "sint (word_of_int (sint x mod sint y) :: 64 word) = sint x mod sint y"
    using sint_in_range [of y] by (intro sint_word_of_int_64) auto
  then show ?thesis using y0 eq by (simp add: go_rem_def)
qed

section \<open>The paginated result\<close>

text \<open>
  Claim C1, as the code has it. For a total \<open>0 \<le> total\<close> and a page size in \<open>[1, 100]\<close>,
  \<^verbatim>\<open>NewPaginatedResult\<close> does not panic, copies data, total, page and page size, and
  reports as \<^verbatim>\<open>TotalPages\<close> the ceiling of \<open>total / pageSize\<close>. For \<open>total = 0\<close> that is 0
  pages (not 1); for every positive total it is at least 1.
\<close>

theorem NewPaginatedResult_TotalPages:
  assumes "0 \<le>s tot" and "1 \<le>s PageSize params" and "PageSize params \<le>s 100"
  shows "\<exists>r. NewPaginatedResult data tot params = Inr r \<and>
           sint (pr_TotalPages r) =
             \<lceil>real_of_int (sint tot) / real_of_int (sint (PageSize params))\<rceil> \<and>
           (tot = 0 \<longrightarrow> pr_TotalPages r = 0) \<and>
           (tot \<noteq> 0 \<longrightarrow> 1 \<le>s pr_TotalPages r) \<and>
           pr_Data r = data \<and> pr_Total r = tot \<and>
           pr_Page r = Page params \<and> pr_PageSize r = PageSize params"
proof -
  let ?t = "sint tot" and ?s = "sint (PageSize params)"
  have t0: "0 \<le> ?t" using assms(1) by (simp add: word_sle_eq)
  have s1: "1 \<le> ?s" using assms(2) by (simp add: word_sle_eq)
  obtain q where q: "go_quo tot (PageSize params) = Inr q" "sint q = ?t div ?s"
    using go_quo_nonneg [of tot "PageSize params"] t0 s1 by auto
  obtain m where m: "go_rem tot (PageSize params) = Inr m" "sint m = ?t mod ?s"
    using go_rem_nonneg [of tot "PageSize params"] t0 s1 by auto
  let ?tp = "if 0 <s m then q + 1 else q"
  have res: "NewPaginatedResult data tot params =
      Inr \<lparr>pr_Data = data, pr_Total = tot, pr_Page = Page params,
           pr_PageSize = PageSize params, pr_TotalPages = ?tp\<rparr>"
    by (simp add: NewPaginatedResult_def q m)
  have pos: "0 <s m \<longleftrightarrow> 0 < ?t mod ?s" by (simp add: word_sless_alt m)
  have tp: "sint ?tp = ?t div ?s + (if 0 < ?t mod ?s then 1 else 0)"
  proof (cases "0 < ?t mod ?s")
    case True
    then have "?s \<noteq> 1" and "?t \<noteq> 0" by auto
    then have "1 < ?s" and "0 < ?t" using s1 t0 by simp_all
    then have "?t div ?s < ?t" by (rule_tac int_div_less_self)
    then have "?t div ?s + 1 < 2 ^ 63" using sint_in_range [of tot] by simp
    moreover have "0 \<le> ?t div ?s" using t0 s1 by (simp add: pos_imp_zdiv_nonneg_iff)
    ultimately have "sint (q + 1) = ?t div ?s + 1"
      by (simp add: sint_word_ariths q signed_take_bit_int_eq_self)
    then show ?thesis using True pos by simp
  next
    case False
    then show ?thesis using pos q by simp
  qed
  have ceil: "sint ?tp = \<lceil>real_of_int ?t / real_of_int ?s\<rceil>"
    using tp s1 ceiling_div_mod [of ?s ?t] by simp
  have zero: "tot = 0 \<longrightarrow> ?tp = 0"
  proof
    assume "tot = 0"
    then have "sint ?tp = 0" using tp by simp
    then show "?tp = 0" by (simp only: signed_eq_0_iff)
  qed
  have nonzero: "tot \<noteq> 0 \<longrightarrow> 1 \<le>s ?tp"
  proof
    assume "tot \<noteq> 0"
    then have "?t \<noteq> 0" by (simp only: signed_eq_0_iff not_False_eq_True)
    then have tpos: "0 < ?t" using t0 by simp
    have "1 \<le> ?t div ?s + (if 0 < ?t mod ?s then 1 else 0)"
    proof (cases "0 < ?t mod ?s")
      case True
      moreover have "0 \<le> ?t div ?s" using t0 s1 by (simp add: pos_imp_zdiv_nonneg_iff)
      ultimately show ?thesis by simp
    next
      case False
      moreover have "0 \<le> ?t mod ?s" using s1 by simp
      ultimately have "?t mod ?s = 0" by linarith
      then have "?s \<le> ?t" using tpos s1 by (simp add: zdvd_imp_le mod_eq_0_iff_dvd)
      then have "0 < ?t div ?s" using s1 by (simp add: pos_imp_zdiv_pos_iff)
      then show ?thesis using False by simp
    qed
    then show "1 \<le>s ?tp" using tp by (simp add: word_sle_eq)
  qed
  show ?thesis using res ceil zero nonzero by simp
qed

text \<open>41 rows in pages of 20 are 3 pages.\<close>

theorem NewPaginatedResult_TotalPages_witness:
  "NewPaginatedResult [''a'', ''b''] 41
     \<lparr>Page = 1, PageSize = 20, SortBy = ''created_at'', SortDir = ''desc''\<rparr> =
   Inr \<lparr>pr_Data = [''a'', ''b''], pr_Total = 41, pr_Page = 1, pr_PageSize = 20,
        pr_TotalPages = 3\<rparr>"
proof -
  let ?P = "\<lparr>Page = 1, PageSize = 20, SortBy = ''created_at'', SortDir = ''desc''\<rparr>"
  have "0 \<le>s (41 :: int64)" "1 \<le>s PageSize ?P" "PageSize ?P \<le>s 100"
    by (simp_all add: word_sle_eq)
  from NewPaginatedResult_TotalPages [OF this, of "[''a'', ''b'']"]
  obtain r where r: "NewPaginatedResult [''a'', ''b''] 41 ?P = Inr r"
    and tp: "sint (pr_TotalPages r) =
      \<lceil>real_of_int (sint (41 :: int64)) / real_of_int (sint (PageSize ?P))\<rceil>"
    and rest: "pr_Data r = [''a'', ''b'']" "pr_Total r = 41" "pr_Page r = Page ?P"
      "pr_PageSize r = PageSize ?P"
    by blast
  have "sint (pr_TotalPages r) = sint (3 :: go_int)"
    using tp by (simp add: ceiling_divide_eq_div_numeral)
  then have "pr_TotalPages r = 3" by (rule signed_word_eqI)
  then show ?thesis using r rest by simp
qed

text \<open>No rows: the constructor reports 0 pages.\<close>

theorem NewPaginatedResult_zero_total_counterexample:
  "NewPaginatedResult ([] :: string list) 0
     \<lparr>Page = 1, PageSize = 20, SortBy = ''created_at'', SortDir = ''desc''\<rparr> =
   Inr \<lparr>pr_Data = [], pr_Total = 0, pr_Page = 1, pr_PageSize = 20, pr_TotalPages = 0\<rparr>"
  by (simp add: NewPaginatedResult_def go_quo_def go_rem_def word_sless_alt)

section \<open>The two formulas for the number of pages\<close>

text \<open>
  Claim C2, evaluated where the two formulas part. For 40 rows in pages of 20 the shared
  constructor reports 2 pages and the metadata of a list response reports 3: the
  handlers add one page unconditionally, the constructor only for a remainder.
\<close>

theorem List_Meta_exact_multiple:
  "NewPaginatedResult ([] :: string list) 40
     \<lparr>Page = 1, PageSize = 20, SortBy = ''created_at'', SortDir = ''desc''\<rparr> =
   Inr \<lparr>pr_Data = [], pr_Total = 40, pr_Page = 1, pr_PageSize = 20, pr_TotalPages = 2\<rparr> \<and>
   List_Meta \<lparr>Page = 1, PageSize = 20, SortBy = ''created_at'', SortDir = ''desc''\<rparr> 40 =
   Inr \<lparr>meta_Page = 1, meta_PageSize = 20, meta_Total = 40, meta_TotalPages = 3\<rparr>"
  by (simp add: NewPaginatedResult_def List_Meta_def go_quo_def go_rem_def word_sless_alt
      signed_divide_int_def signed_modulo_int_def)

text \<open>In general the two agree exactly when the page size does not divide the total.\<close>

lemma List_Meta_vs_NewPaginatedResult:
  assumes "0 \<le>s tot" and "1 \<le>s PageSize params"
  shows "\<exists>r m. NewPaginatedResult data tot params = Inr r \<and> List_Meta params tot = Inr m \<and>
           meta_TotalPages m =
             pr_TotalPages r + (if sint tot mod sint (PageSize params) = 0 then 1 else 0)"
proof -
  let ?t = "sint tot" and ?s = "sint (PageSize params)"
  have t0: "0 \<le> ?t" using assms(1) by (simp add: word_sle_eq)
  have s1: "1 \<le> ?s" using assms(2) by (simp add: word_sle_eq)
  obtain q where q: "go_quo tot (PageSize params) = Inr q"
    using go_quo_nonneg [of tot "PageSize params"] t0 s1 by auto
  obtain m where m: "go_rem tot (PageSize params) = Inr m" "sint m = ?t mod ?s"
    using go_rem_nonneg [of tot "PageSize params"] t0 s1 by auto
  have "0 \<le> ?t mod ?s" using s1 by simp
  moreover have "0 <s m \<longleftrightarrow> 0 < ?t mod ?s" by (simp add: word_sless_alt m)
  ultimately have "0 <s m \<longleftrightarrow> ?t mod ?s \<noteq> 0" by auto
  then show ?thesis by (simp add: NewPaginatedResult_def List_Meta_def q m)
qed

section \<open>Normalization\<close>

lemma Normalize_fields:
  "Page (Normalize p) = (if Page p <s 1 then 1 else Page p)"
  "PageSize (Normalize p) =
     (if PageSize p <s 1 then 20 else if 100 <s PageSize p then 100 else PageSize p)"
  "SortDir (Normalize p) =
     (if SortDir p = ''asc'' \<or> SortDir p = ''desc'' then SortDir p else ''desc'')"
  "SortBy (Normalize p) = SortBy p"
  by (simp_all add: Normalize_def Let_def word_sless_alt)

lemma Normalize_range:
  "1 \<le>s Page (Normalize p)" "1 \<le>s PageSize (Normalize p)" "PageSize (Normalize p) \<le>s 100"
  "SortDir (Normalize p) = ''asc'' \<or> SortDir (Normalize p) = ''desc''"
  by (auto simp add: Normalize_fields word_sless_alt word_sle_eq)

lemma sint_Offset:
  assumes "1 \<le>s Page p"
  shows "sint (Offset p) = signed_take_bit 63 ((sint (Page p) - 1) * sint (PageSize p))"
proof -
  have "1 \<le> sint (Page p)" using assms by (simp add: word_sle_eq)
  then have "sint (Page p - 1) = sint (Page p) - 1"
    using sint_in_range [of "Page p"]
    by (simp add: sint_word_ariths signed_take_bit_int_eq_self)
  then show ?thesis by (simp add: Offset_def sint_word_ariths)
qed

lemma parsePaginationParams_Normalize:
  "\<exists>p. parsePaginationParams atoi query = Normalize p"
  unfolding parsePaginationParams_def Let_def by blast

text \<open>
  Claim C3, as the code has it. \<^verbatim>\<open>Normalize\<close> is total (there is no error to return):
  a page below 1 becomes 1, a page size below 1 becomes 20 and one above 100 becomes
  100, a sort direction other than \<open>asc\<close> and \<open>desc\<close> becomes \<open>desc\<close>, and the sort field
  is kept; the same bounds hold for whatever \<^verbatim>\<open>parsePaginationParams\<close> returns, for
  every query and every \<^verbatim>\<open>Atoi\<close>. The offset is \<open>(page - 1) * pageSize\<close> in wrapping
  64-bit arithmetic: it is that product whenever the product is below \<open>2 ^ 63\<close>.
\<close>

theorem Normalize_bounds:
  "Page (Normalize p) = (if Page p <s 1 then 1 else Page p) \<and>
   PageSize (Normalize p) =
     (if PageSize p <s 1 then 20 else if 100 <s PageSize p then 100 else PageSize p) \<and>
   SortDir (Normalize p) =
     (if SortDir p = ''asc'' \<or> SortDir p = ''desc'' then SortDir p else ''desc'') \<and>
   SortBy (Normalize p) = SortBy p \<and>
   1 \<le>s Page (Normalize p) \<and>
   1 \<le>s PageSize (Normalize p) \<and> PageSize (Normalize p) \<le>s 100 \<and>
   (SortDir (Normalize p) = ''asc'' \<or> SortDir (Normalize p) = ''desc'') \<and>
   sint (Offset (Normalize p)) =
     signed_take_bit 63 ((sint (Page (Normalize p)) - 1) * sint (PageSize (Normalize p))) \<and>
   ((sint (Page (Normalize p)) - 1) * sint (PageSize (Normalize p)) < 2 ^ 63 \<longrightarrow>
      sint (Offset (Normalize p)) =
        (sint (Page (Normalize p)) - 1) * sint (PageSize (Normalize p))) \<and>
   1 \<le>s Page (parsePaginationParams atoi query) \<and>
   1 \<le>s PageSize (parsePaginationParams atoi query) \<and>
   PageSize (parsePaginationParams atoi query) \<le>s 100 \<and>
   (SortDir (parsePaginationParams atoi query) = ''asc'' \<or>
    SortDir (parsePaginationParams atoi query) = ''desc'')"
proof -
  let ?n = "Normalize p"
  have off: "sint (Offset ?n) =
      signed_take_bit 63 ((sint (Page ?n) - 1) * sint (PageSize ?n))"
    by (rule sint_Offset) (rule Normalize_range)
  have exact: "(sint (Page ?n) - 1) * sint (PageSize ?n) < 2 ^ 63 \<longrightarrow>
      sint (Offset ?n) = (sint (Page ?n) - 1) * sint (PageSize ?n)"
  proof
    assume lt: "(sint (Page ?n) - 1) * sint (PageSize ?n) < 2 ^ 63"
    have "0 \<le> sint (Page ?n) - 1" and "0 \<le> sint (PageSize ?n)"
      using Normalize_range(1,2) [of p] by (simp_all add: word_sle_eq)
    then have "0 \<le> (sint (Page ?n) - 1) * sint (PageSize ?n)" by simp
    then show "sint (Offset ?n) = (sint (Page ?n) - 1) * sint (PageSize ?n)"
      using lt off by (simp add: signed_take_bit_int_eq_self)
  qed
  obtain p' where p': "parsePaginationParams atoi query = Normalize p'"
    using parsePaginationParams_Normalize by blast
  show ?thesis
    using Normalize_fields [of p] Normalize_range [of p] off exact
      Normalize_range [of p'] unfolding p' by blast
qed

text \<open>Page \<open>-3\<close> of size 1000 sorted \<open>up\<close> becomes page 1 of size 100 sorted \<open>desc\<close>;
  page 3 of size 0 starts at offset 40.\<close>

theorem Normalize_bounds_witness:
  "Normalize \<lparr>Page = - 3, PageSize = 1000, SortBy = ''title'', SortDir = ''up''\<rparr> =
     \<lparr>Page = 1, PageSize = 100, SortBy = ''title'', SortDir = ''desc''\<rparr> \<and>
   sint (Offset (Normalize \<lparr>Page = 3, PageSize = 0, SortBy = ''title'', SortDir = ''asc''\<rparr>)) = 40"
proof -
  let ?p = "\<lparr>Page = 3, PageSize = 0, SortBy = ''title'', SortDir = ''asc''\<rparr>"
  let ?q = "\<lparr>Page = - 3, PageSize = 1000, SortBy = ''title'', SortDir = ''up''\<rparr>"
  have "sint (Offset (Normalize ?p)) = 40"
    using Normalize_bounds [of ?p] by (simp add: word_sless_alt)
  moreover have "Normalize ?q =
      \<lparr>Page = 1, PageSize = 100, SortBy = ''title'', SortDir = ''desc''\<rparr>"
    using Normalize_bounds [of ?q] by (simp add: word_sless_alt)
  ultimately show ?thesis by simp
qed

text \<open>The last page an \<^verbatim>\<open>int\<close> can name, in pages of 100: the offset wraps to \<open>-200\<close>.\<close>

theorem Offset_overflow_counterexample:
  "Page (Normalize \<lparr>Page = 9223372036854775807, PageSize = 100,
                    SortBy = ''created_at'', SortDir = ''desc''\<rparr>) = 9223372036854775807 \<and>
   PageSize (Normalize \<lparr>Page = 9223372036854775807, PageSize = 100,
                        SortBy = ''created_at'', SortDir = ''desc''\<rparr>) = 100 \<and>
   sint (Offset (Normalize \<lparr>Page = 9223372036854775807, PageSize = 100,
                            SortBy = ''created_at'', SortDir = ''desc''\<rparr>)) = - 200"
  by (simp add: Normalize_def Offset_def Let_def word_sless_alt)

section \<open>Reading a row by its key\<close>

lemma find_distinct_key:
  assumes "distinct (map f xs)" and "x \<in> set xs"
  shows "find (\<lambda>y. f y = f x) xs = Some x"
  using assms
proof (induction xs)
  case Nil
  then show ?case by simp
next
  case (Cons a xs)
  then show ?case by (cases "a = x") (auto simp: image_iff)
qed

lemma find_absent_key:
  assumes "\<forall>x\<in>set xs. f x \<noteq> k"
  shows "find (\<lambda>y. f y = k) xs = None"
  using assms by (simp add: find_None_iff)

lemmas sample_defs = sample_db_def sample_user_def sample_article_type_def
  sample_page_type_def sample_post_def sample_news_tag_def sample_go_tag_def
  sample_image_def sample_new_contact_def sample_read_contact_def sample_setting_def

section \<open>Partial updates that carry no field\<close>

lemma setClauses_empty_tag:
  "TagRepository_Update tid \<lparr>utr_Name = None, utr_Slug = None\<rparr> db =
     (TagRepository_GetByID tid db, db)"
  by (simp add: TagRepository_Update_def)

lemma setClauses_empty_media:
  "MediaRepository_Update mid
     \<lparr>umr_FileName = None, umr_CDNUrl = None, umr_Dimensions = None,
      umr_Variants = None, umr_AltText = None\<rparr> db =
     (MediaRepository_GetByID mid db, db)"
  by (simp add: MediaRepository_Update_def)

lemma setClauses_empty_setting:
  "SettingRepository_Update now k \<lparr>usr_Value = None, usr_Description = None\<rparr> db =
     (SettingRepository_GetByKey k db, db)"
  by (simp add: SettingRepository_Update_def)

lemma setClauses_empty_content_type:
  "ContentTypeRepository_Update now cid
     \<lparr>uctr_Name = None, uctr_Slug = None, uctr_SchemaFields = None,
      uctr_IsActive = None, uctr_DisplayOrder = None\<rparr> db =
     (ContentTypeRepository_GetByID cid db, db)"
  by (simp add: ContentTypeRepository_Update_def)

lemma setClauses_empty_contact:
  "ContactRepository_Update now cid \<lparr>ucr_Status = None\<rparr> db =
     (ContactRepository_GetByID cid db, db)"
  by (simp add: ContactRepository_Update_def)

text \<open>
  Claim C10. In each of the five repositories, \<^verbatim>\<open>Update\<close> with a request none of whose
  optional fields is present leaves the database as it is; it returns the stored row
  when the table (with its key unique) holds one for the identifier or key, and
  \<^verbatim>\<open>ErrNotFound\<close> when no row has it.
\<close>

theorem update_without_fields_is_a_read:
  "(distinct (map tag_ID (tags db)) \<longrightarrow>
      (\<forall>t\<in>set (tags db).
         TagRepository_Update (tag_ID t) \<lparr>utr_Name = None, utr_Slug = None\<rparr> db =
           (Inr t, db))) \<and>
   ((\<forall>t\<in>set (tags db). tag_ID t \<noteq> tid) \<longrightarrow>
      TagRepository_Update tid \<lparr>utr_Name = None, utr_Slug = None\<rparr> db =
        (Inl ErrNotFound, db)) \<and>
   (distinct (map media_ID (media db)) \<longrightarrow>
      (\<forall>m\<in>set (media db).
         MediaRepository_Update (media_ID m)
           \<lparr>umr_FileName = None, umr_CDNUrl = None, umr_Dimensions = None,
            umr_Variants = None, umr_AltText = None\<rparr> db = (Inr m, db))) \<and>
   ((\<forall>m\<in>set (media db). media_ID m \<noteq> mid) \<longrightarrow>
      MediaRepository_Update mid
        \<lparr>umr_FileName = None, umr_CDNUrl = None, umr_Dimensions = None,
         umr_Variants = None, umr_AltText = None\<rparr> db = (Inl ErrNotFound, db)) \<and>
   (distinct (map setting_Key (settings db)) \<longrightarrow>
      (\<forall>s\<in>set (settings db).
         SettingRepository_Update now (setting_Key s)
           \<lparr>usr_Value = None, usr_Description = None\<rparr> db = (Inr s, db))) \<and>
   ((\<forall>s\<in>set (settings db). setting_Key s \<noteq> k) \<longrightarrow>
      SettingRepository_Update now k \<lparr>usr_Value = None, usr_Description = None\<rparr> db =
        (Inl ErrNotFound, db)) \<and>
   (distinct (map ct_ID (content_types db)) \<longrightarrow>
      (\<forall>c\<in>set (content_types db).
         ContentTypeRepository_Update now (ct_ID c)
           \<lparr>uctr_Name = None, uctr_Slug = None, uctr_SchemaFields = None,
            uctr_IsActive = None, uctr_DisplayOrder = None\<rparr> db = (Inr c, db))) \<and>
   ((\<forall>c\<in>set (content_types db). ct_ID c \<noteq> cid) \<longrightarrow>
      ContentTypeRepository_Update now cid
        \<lparr>uctr_Name = None, uctr_Slug = None, uctr_SchemaFields = None,
         uctr_IsActive = None, uctr_DisplayOrder = None\<rparr> db = (Inl ErrNotFound, db)) \<and>
   (distinct (map contact_ID (contact_submissions db)) \<longrightarrow>
      (\<forall>c\<in>set (contact_submissions db).
         ContactRepository_Update now (contact_ID c) \<lparr>ucr_Status = None\<rparr> db =
           (Inr c, db))) \<and>
   ((\<forall>c\<in>set (contact_submissions db). contact_ID c \<noteq> sid) \<longrightarrow>
      ContactRepository_Update now sid \<lparr>ucr_Status = None\<rparr> db = (Inl ErrNotFound, db))"
proof -
  have tag1: "distinct (map tag_ID (tags db)) \<longrightarrow>
      (\<forall>t\<in>set (tags db).
         TagRepository_Update (tag_ID t) \<lparr>utr_Name = None, utr_Slug = None\<rparr> db =
           (Inr t, db))"
    by (simp add: setClauses_empty_tag TagRepository_GetByID_def find_distinct_key)
  have tag2: "(\<forall>t\<in>set (tags db). tag_ID t \<noteq> tid) \<longrightarrow>
      TagRepository_Update tid \<lparr>utr_Name = None, utr_Slug = None\<rparr> db =
        (Inl ErrNotFound, db)"
    by (simp add: setClauses_empty_tag TagRepository_GetByID_def find_absent_key)
  have media1: "distinct (map media_ID (media db)) \<longrightarrow>
      (\<forall>m\<in>set (media db).
         MediaRepository_Update (media_ID m)
           \<lparr>umr_FileName = None, umr_CDNUrl = None, umr_Dimensions = None,
            umr_Variants = None, umr_AltText = None\<rparr> db = (Inr m, db))"
    by (simp add: setClauses_empty_media MediaRepository_GetByID_def find_distinct_key)
  have media2: "(\<forall>m\<in>set (media db). media_ID m \<noteq> mid) \<longrightarrow>
      MediaRepository_Update mid
        \<lparr>umr_FileName = None, umr_CDNUrl = None, umr_Dimensions = None,
         umr_Variants = None, umr_AltText = None\<rparr> db = (Inl ErrNotFound, db)"
    by (simp add: setClauses_empty_media MediaRepository_GetByID_def find_absent_key)
  have setting1: "distinct (map setting_Key (settings db)) \<longrightarrow>
      (\<forall>s\<in>set (settings db).
         SettingRepository_Update now (setting_Key s)
           \<lparr>usr_Value = None, usr_Description = None\<rparr> db = (Inr s, db))"
    by (simp add: setClauses_empty_setting SettingRepository_GetByKey_def find_distinct_key)
  have setting2: "(\<forall>s\<in>set (settings db). setting_Key s \<noteq> k) \<longrightarrow>
      SettingRepository_Update now k \<lparr>usr_Value = None, usr_Description = None\<rparr> db =
        (Inl ErrNotFound, db)"
    by (simp add: setClauses_empty_setting SettingRepository_GetByKey_def find_absent_key)
  have ct1: "distinct (map ct_ID (content_types db)) \<longrightarrow>
      (\<forall>c\<in>set (content_types db).
         ContentTypeRepository_Update now (ct_ID c)
           \<lparr>uctr_Name = None, uctr_Slug = None, uctr_SchemaFields = None,
            uctr_IsActive = None, uctr_DisplayOrder = None\<rparr> db = (Inr c, db))"
    by (simp add: setClauses_empty_content_type ContentTypeRepository_GetByID_def
        find_distinct_key)
  have ct2: "(\<forall>c\<in>set (content_types db). ct_ID c \<noteq> cid) \<longrightarrow>
      ContentTypeRepository_Update now cid
        \<lparr>uctr_Name = None, uctr_Slug = None, uctr_SchemaFields = None,
         uctr_IsActive = None, uctr_DisplayOrder = None\<rparr> db = (Inl ErrNotFound, db)"
    by (simp add: setClauses_empty_content_type ContentTypeRepository_GetByID_def
        find_absent_key)
  have contact1: "distinct (map contact_ID (contact_submissions db)) \<longrightarrow>
      (\<forall>c\<in>set (contact_submissions db).
         ContactRepository_Update now (contact_ID c) \<lparr>ucr_Status = None\<rparr> db =
           (Inr c, db))"
    by (simp add: setClauses_empty_contact ContactRepository_GetByID_def find_distinct_key)
  have contact2: "(\<forall>c\<in>set (contact_submissions db). contact_ID c \<noteq> sid) \<longrightarrow>
      ContactRepository_Update now sid \<lparr>ucr_Status = None\<rparr> db = (Inl ErrNotFound, db)"
    by (simp add: setClauses_empty_contact ContactRepository_GetByID_def find_absent_key)
  show ?thesis
    using tag1 tag2 media1 media2 setting1 setting2 ct1 ct2 contact1 contact2
    by (intro conjI)
qed

text \<open>On the sample database: the stored tag and setting come back, an unknown tag or
  contact is not found, and the database is the same afterwards.\<close>

theorem update_without_fields_is_a_read_witness:
  "TagRepository_Update 5 \<lparr>utr_Name = None, utr_Slug = None\<rparr> sample_db =
     (Inr sample_news_tag, sample_db) \<and>
   TagRepository_Update 99 \<lparr>utr_Name = None, utr_Slug = None\<rparr> sample_db =
     (Inl ErrNotFound, sample_db) \<and>
   SettingRepository_Update 7 ''site_name''
     \<lparr>usr_Value = None, usr_Description = None\<rparr> sample_db =
     (Inr sample_setting, sample_db) \<and>
   ContactRepository_Update 7 99 \<lparr>ucr_Status = None\<rparr> sample_db =
     (Inl ErrNotFound, sample_db)"
proof -
  note inst = update_without_fields_is_a_read
    [where db = sample_db and tid = 99 and now = 7 and sid = 99]
  have d: "distinct (map tag_ID (tags sample_db))"
    "distinct (map setting_Key (settings sample_db))"
    by (simp_all add: sample_defs)
  have m: "sample_news_tag \<in> set (tags sample_db)"
    "sample_setting \<in> set (settings sample_db)"
    by (simp_all add: sample_db_def)
  have a: "\<forall>t\<in>set (tags sample_db). tag_ID t \<noteq> 99"
    "\<forall>c\<in>set (contact_submissions sample_db). contact_ID c \<noteq> 99"
    by (simp_all add: sample_defs)
  have "TagRepository_Update (tag_ID sample_news_tag)
      \<lparr>utr_Name = None, utr_Slug = None\<rparr> sample_db = (Inr sample_news_tag, sample_db)"
    using inst d m by blast
  moreover have "SettingRepository_Update 7 (setting_Key sample_setting)
      \<lparr>usr_Value = None, usr_Description = None\<rparr> sample_db =
      (Inr sample_setting, sample_db)"
    using inst d m by blast
  moreover have "TagRepository_Update 99 \<lparr>utr_Name = None, utr_Slug = None\<rparr> sample_db =
     (Inl ErrNotFound, sample_db)"
    using inst a by blast
  moreover have "ContactRepository_Update 7 99 \<lparr>ucr_Status = None\<rparr> sample_db =
     (Inl ErrNotFound, sample_db)"
    using inst a by blast
  ultimately show ?thesis by (simp add: sample_news_tag_def sample_setting_def)
qed

section \<open>Deleting a content type\<close>

lemma list_ex_iff_Bex: "list_ex P xs \<longleftrightarrow> (\<exists>x\<in>set xs. P x)"
  by (simp add: list_ex_iff)

lemma find_filtered_out: "find (\<lambda>c. f c = k) (filter (\<lambda>c. f c \<noteq> k) xs) = None"
  by (simp add: find_None_iff)

lemma filter_key_nonempty:
  "(\<exists>c\<in>set xs. f c = k) \<Longrightarrow> length (filter (\<lambda>c. f c = k) xs) \<noteq> 0"
  by (auto simp: filter_empty_conv)

text \<open>
  Claim C8. For a stored content type: when some post refers to it, \<^verbatim>\<open>Delete\<close> returns
  \<^verbatim>\<open>ErrForeignKey\<close> and leaves the database as it was (the handler answers 409
  \<open>CONFLICT\<close>); when no post refers to it, \<^verbatim>\<open>Delete\<close> succeeds, removes the row and
  nothing else (the handler answers 204), and \<^verbatim>\<open>GetByID\<close> on the database it leaves
  returns \<^verbatim>\<open>ErrNotFound\<close>.
\<close>

theorem content_type_delete_restricted:
  "((\<exists>c\<in>set (content_types db). ct_ID c = cid) \<and>
    (\<exists>r\<in>set (content_posts db). post_ContentTypeID r = cid) \<longrightarrow>
      ContentTypeRepository_Delete cid db = (Inl ErrForeignKey, db) \<and>
      ContentTypeHandler_Delete (Some cid) db =
        (Conflict ''Cannot delete content type with existing posts'', db)) \<and>
   ((\<exists>c\<in>set (content_types db). ct_ID c = cid) \<and>
    (\<forall>r\<in>set (content_posts db). post_ContentTypeID r \<noteq> cid) \<longrightarrow>
      ContentTypeRepository_Delete cid db =
        (Inr (), db\<lparr>content_types := filter (\<lambda>c. ct_ID c \<noteq> cid) (content_types db)\<rparr>) \<and>
      ContentTypeRepository_GetByID cid (snd (ContentTypeRepository_Delete cid db)) =
        Inl ErrNotFound \<and>
      ContentTypeHandler_Delete (Some cid) db =
        (NoContent, db\<lparr>content_types := filter (\<lambda>c. ct_ID c \<noteq> cid) (content_types db)\<rparr>))"
proof (intro conjI impI)
  assume a: "(\<exists>c\<in>set (content_types db). ct_ID c = cid) \<and>
    (\<exists>r\<in>set (content_posts db). post_ContentTypeID r = cid)"
  then have "delete_content_type cid db = Inl foreign_key_violation"
    by (simp add: delete_content_type_def list_ex_iff_Bex)
  then show r: "ContentTypeRepository_Delete cid db = (Inl ErrForeignKey, db)"
    by (simp add: ContentTypeRepository_Delete_def foreign_key_violation_def)
  show "ContentTypeHandler_Delete (Some cid) db =
      (Conflict ''Cannot delete content type with existing posts'', db)"
    by (simp add: ContentTypeHandler_Delete_def r)
next
  assume a: "(\<exists>c\<in>set (content_types db). ct_ID c = cid) \<and>
    (\<forall>r\<in>set (content_posts db). post_ContentTypeID r \<noteq> cid)"
  let ?db' = "db\<lparr>content_types := filter (\<lambda>c. ct_ID c \<noteq> cid) (content_types db)\<rparr>"
  have n: "length (filter (\<lambda>c. ct_ID c = cid) (content_types db)) \<noteq> 0"
    using a by (intro filter_key_nonempty) blast
  have "\<not> list_ex (\<lambda>r. post_ContentTypeID r = cid) (content_posts db)"
    using a by (simp add: list_ex_iff_Bex)
  then have "delete_content_type cid db =
      Inr (?db', length (filter (\<lambda>c. ct_ID c = cid) (content_types db)))"
    by (simp add: delete_content_type_def)
  then show r: "ContentTypeRepository_Delete cid db = (Inr (), ?db')"
    using n by (simp add: ContentTypeRepository_Delete_def)
  show "ContentTypeRepository_GetByID cid (snd (ContentTypeRepository_Delete cid db)) =
      Inl ErrNotFound"
    by (simp add: r ContentTypeRepository_GetByID_def find_filtered_out)
  show "ContentTypeHandler_Delete (Some cid) db = (NoContent, ?db')"
    by (simp add: ContentTypeHandler_Delete_def r)
qed

text \<open>On the sample database the article type has a post and stays; the page type has
  none and goes.\<close>

theorem content_type_delete_restricted_witness:
  "ContentTypeRepository_Delete 2 sample_db = (Inl ErrForeignKey, sample_db) \<and>
   ContentTypeRepository_Delete 3 sample_db =
     (Inr (), sample_db\<lparr>content_types := [sample_article_type]\<rparr>) \<and>
   ContentTypeRepository_GetByID 3 (snd (ContentTypeRepository_Delete 3 sample_db)) =
     Inl ErrNotFound"
proof -
  have used: "(\<exists>c\<in>set (content_types sample_db). ct_ID c = 2) \<and>
      (\<exists>r\<in>set (content_posts sample_db). post_ContentTypeID r = 2)"
    by (simp add: sample_defs)
  have unused: "(\<exists>c\<in>set (content_types sample_db). ct_ID c = 3) \<and>
      (\<forall>r\<in>set (content_posts sample_db). post_ContentTypeID r \<noteq> 3)"
    by (simp add: sample_defs)
  have f: "filter (\<lambda>c. ct_ID c \<noteq> 3) (content_types sample_db) = [sample_article_type]"
    by (simp add: sample_defs)
  show ?thesis
    using content_type_delete_restricted [of sample_db 2] used
      content_type_delete_restricted [of sample_db 3] unused
    by (simp only: f) blast
qed

section \<open>Contacts\<close>

lemma distinct_key_eq:
  assumes "distinct (map f xs)" and "x \<in> set xs" and "y \<in> set xs" and "f x = f y"
  shows "x = y"
  using assms by (meson distinct_map inj_on_def)

lemma map_update_distinct_key:
  assumes "distinct (map f xs)" and "x \<in> set xs"
  shows "map (\<lambda>y. if f y = f x then g y else y) xs = map (\<lambda>y. if y = x then g x else y) xs"
  using assms by (auto intro!: map_cong dest: distinct_key_eq)

lemma find_map_replace:
  assumes "distinct (map f xs)" and "x \<in> set xs" and "f x' = f x"
  shows "find (\<lambda>y. f y = f x) (map (\<lambda>y. if y = x then x' else y) xs) = Some x'"
  using assms
proof (induction xs)
  case Nil
  then show ?case by simp
next
  case (Cons a xs)
  then show ?case by (cases "a = x") (auto simp: image_iff)
qed

lemma contact_setClauses:
  "foldl apply_contact_set x
     ([Set_contact_status st] @ (if st = ContactStatusRead then [Set_read_at now] else [])) =
   x\<lparr>contact_Status := st,
     contact_ReadAt := (if st = ContactStatusRead then Some now else contact_ReadAt x)\<rparr>"
  by simp

lemma status_in_range:
  "1 \<le>s ContactStatusRead \<and> ContactStatusRead \<le>s 4"
  by (simp add: ContactStatusRead_def word_sle_eq)

text \<open>
  Claim C6, as the code has it. For a stored contact submission and a status that the
  schema admits (1 to 4), \<^verbatim>\<open>Update\<close> writes that status, and sets \<^verbatim>\<open>read_at\<close> to the
  current time exactly when the status the request carries is \<open>read\<close>, whatever the
  stored status was (a submission that is already \<open>read\<close> is stamped again); with any
  other admitted status \<^verbatim>\<open>read_at\<close> keeps its value. A status outside 1 to 4 violates
  the \<^verbatim>\<open>CHECK\<close> of the column: \<^verbatim>\<open>Update\<close> returns the wrapped error and writes
  nothing. A request without a status writes nothing and returns the stored row. The
  request has no other field, so \<^verbatim>\<open>read_at\<close> is only ever what it was or the time of
  the call.
\<close>

theorem contact_update_stamps_read_at:
  assumes "distinct (map contact_ID (contact_submissions db))"
    and "c \<in> set (contact_submissions db)"
  shows
    "(1 \<le>s st \<and> st \<le>s 4 \<longrightarrow>
       ContactRepository_Update now (contact_ID c) \<lparr>ucr_Status = Some st\<rparr> db =
         (Inr (c\<lparr>contact_Status := st,
                 contact_ReadAt :=
                   (if st = ContactStatusRead then Some now else contact_ReadAt c)\<rparr>),
          db\<lparr>contact_submissions :=
               map (\<lambda>x. if x = c
                         then c\<lparr>contact_Status := st,
                                contact_ReadAt :=
                                  (if st = ContactStatusRead then Some now
                                   else contact_ReadAt c)\<rparr>
                         else x)
                 (contact_submissions db)\<rparr>) \<and>
       ContactRepository_GetByID (contact_ID c)
           (snd (ContactRepository_Update now (contact_ID c) \<lparr>ucr_Status = Some st\<rparr> db)) =
         Inr (c\<lparr>contact_Status := st,
                contact_ReadAt :=
                  (if st = ContactStatusRead then Some now else contact_ReadAt c)\<rparr>)) \<and>
     (\<not> (1 \<le>s st \<and> st \<le>s 4) \<longrightarrow>
       ContactRepository_Update now (contact_ID c) \<lparr>ucr_Status = Some st\<rparr> db =
         (Inl (Wrapped ''failed to update contact submission'' check_violation), db)) \<and>
     ContactRepository_Update now (contact_ID c) \<lparr>ucr_Status = None\<rparr> db = (Inr c, db)"
proof -
  define c' where "c' = c\<lparr>contact_Status := st,
      contact_ReadAt := (if st = ContactStatusRead then Some now else contact_ReadAt c)\<rparr>"
  define upd :: "ContactSubmission \<Rightarrow> ContactSubmission"
    where "upd = (\<lambda>x. x\<lparr>contact_Status := st,
      contact_ReadAt := (if st = ContactStatusRead then Some now else contact_ReadAt x)\<rparr>)"
  have c': "c' = upd c" and id: "contact_ID c' = contact_ID c"
    by (simp_all add: c'_def upd_def)
  have f: "find (\<lambda>x. contact_ID x = contact_ID c) (contact_submissions db) = Some c"
    using assms by (rule find_distinct_key)
  have m: "map (\<lambda>x. if contact_ID x = contact_ID c then upd x else x) (contact_submissions db) =
      map (\<lambda>x. if x = c then c' else x) (contact_submissions db)"
    unfolding c' using assms by (rule map_update_distinct_key)
  have g: "ContactRepository_GetByID (contact_ID c)
      (db\<lparr>contact_submissions :=
           map (\<lambda>x. if x = c then c' else x) (contact_submissions db)\<rparr>) = Inr c'"
    using find_map_replace [OF assms id] by (simp add: ContactRepository_GetByID_def)
  have r: "ContactRepository_Update now (contact_ID c) \<lparr>ucr_Status = Some st\<rparr> db =
      (Inr c', db\<lparr>contact_submissions :=
                    map (\<lambda>x. if x = c then c' else x) (contact_submissions db)\<rparr>)"
    if ok: "1 \<le>s st \<and> st \<le>s 4"
  proof -
    have "ContactRepository_Update now (contact_ID c) \<lparr>ucr_Status = Some st\<rparr> db =
        (Inr (upd c),
         db\<lparr>contact_submissions :=
              map (\<lambda>x. if contact_ID x = contact_ID c then upd x else x)
                (contact_submissions db)\<rparr>)"
      using ok status_in_range
      by (simp add: ContactRepository_Update_def update_contact_submission_def f upd_def)
    then show ?thesis by (simp only: m c' [symmetric])
  qed
  have b: "ContactRepository_Update now (contact_ID c) \<lparr>ucr_Status = Some st\<rparr> db =
      (Inl (Wrapped ''failed to update contact submission'' check_violation), db)"
    if bad: "\<not> (1 \<le>s st \<and> st \<le>s 4)"
  proof -
    have "st \<noteq> ContactStatusRead" using bad status_in_range by auto
    then show ?thesis
      using bad
      by (simp add: ContactRepository_Update_def update_contact_submission_def f
          check_violation_def)
  qed
  have n: "ContactRepository_Update now (contact_ID c) \<lparr>ucr_Status = None\<rparr> db = (Inr c, db)"
    by (simp add: ContactRepository_Update_def ContactRepository_GetByID_def f)
  show ?thesis
  proof (intro conjI impI)
    assume ok: "1 \<le>s st \<and> st \<le>s 4"
    show "ContactRepository_Update now (contact_ID c) \<lparr>ucr_Status = Some st\<rparr> db =
         (Inr (c\<lparr>contact_Status := st,
                 contact_ReadAt :=
                   (if st = ContactStatusRead then Some now else contact_ReadAt c)\<rparr>),
          db\<lparr>contact_submissions :=
               map (\<lambda>x. if x = c
                         then c\<lparr>contact_Status := st,
                                contact_ReadAt :=
                                  (if st = ContactStatusRead then Some now
                                   else contact_ReadAt c)\<rparr>
                         else x)
                 (contact_submissions db)\<rparr>)"
      using r [OF ok] unfolding c'_def by simp
  next
    assume ok: "1 \<le>s st \<and> st \<le>s 4"
    show "ContactRepository_GetByID (contact_ID c)
           (snd (ContactRepository_Update now (contact_ID c) \<lparr>ucr_Status = Some st\<rparr> db)) =
         Inr (c\<lparr>contact_Status := st,
                contact_ReadAt :=
                  (if st = ContactStatusRead then Some now else contact_ReadAt c)\<rparr>)"
      using r [OF ok] g unfolding c'_def by simp
  next
    assume bad: "\<not> (1 \<le>s st \<and> st \<le>s 4)"
    show "ContactRepository_Update now (contact_ID c) \<lparr>ucr_Status = Some st\<rparr> db =
        (Inl (Wrapped ''failed to update contact submission'' check_violation), db)"
      by (rule b [OF bad])
  next
    show "ContactRepository_Update now (contact_ID c) \<lparr>ucr_Status = None\<rparr> db = (Inr c, db)"
      by (rule n)
  qed
qed

text \<open>Marking the new submission as read at time 60 stamps it; marking it as replied
  at time 61 does not; the status 5 at time 62 is refused.\<close>

theorem contact_update_stamps_read_at_witness:
  "ContactRepository_Update 60 9 \<lparr>ucr_Status = Some ContactStatusRead\<rparr> sample_db =
     (Inr (sample_new_contact\<lparr>contact_Status := 2, contact_ReadAt := Some 60\<rparr>),
      sample_db\<lparr>contact_submissions :=
        [sample_new_contact\<lparr>contact_Status := 2, contact_ReadAt := Some 60\<rparr>,
         sample_read_contact]\<rparr>) \<and>
   ContactRepository_Update 61 9 \<lparr>ucr_Status = Some 3\<rparr> sample_db =
     (Inr (sample_new_contact\<lparr>contact_Status := 3\<rparr>),
      sample_db\<lparr>contact_submissions :=
        [sample_new_contact\<lparr>contact_Status := 3\<rparr>, sample_read_contact]\<rparr>) \<and>
   ContactRepository_Update 62 9 \<lparr>ucr_Status = Some 5\<rparr> sample_db =
     (Inl (Wrapped ''failed to update contact submission'' (PgError ''23514'')), sample_db)"
proof -
  have d: "distinct (map contact_ID (contact_submissions sample_db))"
    by (simp add: sample_defs)
  have m: "sample_new_contact \<in> set (contact_submissions sample_db)"
    by (simp add: sample_db_def)
  have i: "contact_ID sample_new_contact = 9"
    by (simp add: sample_new_contact_def)
  have ne: "sample_read_contact \<noteq> sample_new_contact"
    by (simp add: sample_new_contact_def sample_read_contact_def)
  have l: "contact_submissions sample_db = [sample_new_contact, sample_read_contact]"
    by (simp add: sample_db_def)
  have s: "1 \<le>s ContactStatusRead \<and> ContactStatusRead \<le>s 4"
    "1 \<le>s (3 :: int16) \<and> (3 :: int16) \<le>s 4"
    "\<not> (1 \<le>s (5 :: int16) \<and> (5 :: int16) \<le>s 4)"
    by (simp_all add: ContactStatusRead_def word_sle_eq)
  have three: "(3 :: int16) \<noteq> ContactStatusRead"
    by (simp add: ContactStatusRead_def)
  show ?thesis
    using contact_update_stamps_read_at [OF d m, of ContactStatusRead 60] s(1)
      contact_update_stamps_read_at [OF d m, of 3 61] s(2)
      contact_update_stamps_read_at [OF d m, of 5 62] s(3)
    by (simp add: i l ne three ContactStatusRead_def check_violation_def)
qed

text \<open>The submission that was read at time 50, updated to \<open>read\<close> again at time 60, is
  stamped 60.\<close>

theorem contact_read_again_counterexample:
  "contact_Status sample_read_contact = ContactStatusRead \<and>
   contact_ReadAt sample_read_contact = Some 50 \<and>
   fst (ContactRepository_Update 60 10 \<lparr>ucr_Status = Some ContactStatusRead\<rparr> sample_db) =
     Inr (sample_read_contact\<lparr>contact_ReadAt := Some 60\<rparr>)"
  by (simp add: ContactRepository_Update_def update_contact_submission_def sample_defs
      ContactStatusRead_def word_sle_eq)

section \<open>Settings\<close>

lemma filter_key_distinct:
  assumes "distinct (map f xs)" and "x \<in> set xs"
  shows "filter (\<lambda>y. f y = f x) xs = [x]"
  using assms
proof (induction xs)
  case Nil
  then show ?case by simp
next
  case (Cons a xs)
  show ?case
  proof (cases "a = x")
    case True
    then have "\<forall>y\<in>set xs. f y \<noteq> f x" using Cons.prems by (auto simp: image_iff)
    then have "filter (\<lambda>y. f y = f x) xs = []" by (simp add: filter_empty_conv)
    then show ?thesis using True by simp
  next
    case False
    then have "x \<in> set xs" using Cons.prems by simp
    moreover have "f a \<noteq> f x" using Cons.prems False \<open>x \<in> set xs\<close> by (auto simp: image_iff)
    ultimately show ?thesis using Cons by simp
  qed
qed

lemma filter_key_map_replace:
  assumes "distinct (map f xs)" and "x \<in> set xs" and "f x' = f x"
  shows "filter (\<lambda>y. f y = f x) (map (\<lambda>y. if y = x then x' else y) xs) = [x']"
proof -
  have e: "map f (map (\<lambda>y. if y = x then x' else y) xs) = map f xs"
    unfolding map_map by (rule map_cong) (auto simp: assms(3))
  have d: "distinct (map f (map (\<lambda>y. if y = x then x' else y) xs))"
    unfolding e by (rule assms(1))
  have "x' \<in> set (map (\<lambda>y. if y = x then x' else y) xs)"
    using assms(2) by (auto simp: image_iff)
  from filter_key_distinct [OF d this] show ?thesis using assms(3) by simp
qed

lemma varchar_fits: "length s \<le> n \<Longrightarrow> varchar n s = Inr s"
  by (simp add: varchar_def)

lemma varchar_too_long:
  "n < length s \<Longrightarrow> \<exists>c\<in>set (drop n s). c \<noteq> CHR '' '' \<Longrightarrow>
   varchar n s = Inl string_data_right_truncation"
  by (auto simp: varchar_def list_all_iff)

text \<open>
  Claim C7, as the code has it. With the keys of \<^verbatim>\<open>settings\<close> unique and a key of at
  most 100 characters: \<^verbatim>\<open>Upsert\<close> on a key that has a row returns and stores that row
  with the request's value and description, the time of the call as \<^verbatim>\<open>updated_at\<close>
  (stamped by the trigger of the table), and the identifier and key it had; every other
  row, the number of rows and the identifiers stay, and the key still has exactly one
  row. \<^verbatim>\<open>Upsert\<close> on a key of at most 100 characters that has no row (with a fresh
  identifier) appends exactly one row for it. A key with a character other than a space
  beyond its first 100 does not fit the column: \<^verbatim>\<open>Upsert\<close> returns the wrapped error
  and the table is as it was.
\<close>

theorem upsert_replaces_or_inserts:
  "(distinct (map setting_Key (settings db)) \<and> length (csr_Key req) \<le> 100 \<longrightarrow>
     (\<forall>old\<in>set (settings db). setting_Key old = csr_Key req \<longrightarrow>
        SettingRepository_Upsert new_id now req db =
          (Inr (old\<lparr>setting_Value := csr_Value req,
                    setting_Description := csr_Description req,
                    setting_UpdatedAt := now\<rparr>),
           db\<lparr>settings :=
                map (\<lambda>r. if r = old
                          then old\<lparr>setting_Value := csr_Value req,
                                   setting_Description := csr_Description req,
                                   setting_UpdatedAt := now\<rparr>
                          else r)
                  (settings db)\<rparr>) \<and>
        length (settings (snd (SettingRepository_Upsert new_id now req db))) =
          length (settings db) \<and>
        map setting_ID (settings (snd (SettingRepository_Upsert new_id now req db))) =
          map setting_ID (settings db) \<and>
        filter (\<lambda>r. setting_Key r = csr_Key req)
            (settings (snd (SettingRepository_Upsert new_id now req db))) =
          [old\<lparr>setting_Value := csr_Value req,
               setting_Description := csr_Description req,
               setting_UpdatedAt := now\<rparr>])) \<and>
   (length (csr_Key req) \<le> 100 \<and>
    (\<forall>r\<in>set (settings db). setting_Key r \<noteq> csr_Key req \<and> setting_ID r \<noteq> new_id) \<longrightarrow>
      SettingRepository_Upsert new_id now req db =
        (Inr \<lparr>setting_ID = new_id, setting_Key = csr_Key req,
              setting_Value = csr_Value req, setting_Description = csr_Description req,
              setting_UpdatedAt = now\<rparr>,
         db\<lparr>settings := settings db @
              [\<lparr>setting_ID = new_id, setting_Key = csr_Key req,
                setting_Value = csr_Value req, setting_Description = csr_Description req,
                setting_UpdatedAt = now\<rparr>]\<rparr>) \<and>
      filter (\<lambda>r. setting_Key r = csr_Key req)
          (settings (snd (SettingRepository_Upsert new_id now req db))) =
        [\<lparr>setting_ID = new_id, setting_Key = csr_Key req,
          setting_Value = csr_Value req, setting_Description = csr_Description req,
          setting_UpdatedAt = now\<rparr>]) \<and>
   (100 < length (csr_Key req) \<and> (\<exists>c\<in>set (drop 100 (csr_Key req)). c \<noteq> CHR '' '') \<longrightarrow>
      SettingRepository_Upsert new_id now req db =
        (Inl (Wrapped ''failed to upsert setting'' string_data_right_truncation), db))"
proof (intro conjI impI ballI)
  fix old
  assume dl: "distinct (map setting_Key (settings db)) \<and> length (csr_Key req) \<le> 100"
    and old: "old \<in> set (settings db)" and key: "setting_Key old = csr_Key req"
  have d: "distinct (map setting_Key (settings db))" using dl by simp
  have v: "varchar 100 (csr_Key req) = Inr (csr_Key req)"
    using dl by (simp add: varchar_fits)
  define upd :: "Setting \<Rightarrow> Setting" where
    "upd = (\<lambda>r. r\<lparr>setting_Value := csr_Value req,
                   setting_Description := csr_Description req, setting_UpdatedAt := now\<rparr>)"
  let ?db' = "db\<lparr>settings := map (\<lambda>r. if r = old then upd old else r) (settings db)\<rparr>"
  have f: "find (\<lambda>r. setting_Key r = csr_Key req) (settings db) = Some old"
    using find_distinct_key [OF d old] key by simp
  have m: "map (\<lambda>r. if setting_Key r = csr_Key req then upd r else r) (settings db) =
      map (\<lambda>r. if r = old then upd old else r) (settings db)"
    using map_update_distinct_key [OF d old, of upd] key by simp
  have o: "upd old = \<lparr>setting_ID = setting_ID old, setting_Key = csr_Key req,
      setting_Value = csr_Value req, setting_Description = csr_Description req,
      setting_UpdatedAt = now\<rparr>"
    using key by (cases old) (simp add: upd_def)
  have "SettingRepository_Upsert new_id now req db =
      (Inr (upd old),
       db\<lparr>settings :=
            map (\<lambda>r. if setting_Key r = csr_Key req then upd r else r) (settings db)\<rparr>)"
    unfolding o by (simp add: SettingRepository_Upsert_def upsert_setting_def v f upd_def Let_def)
  then have r: "SettingRepository_Upsert new_id now req db = (Inr (upd old), ?db')"
    by (simp only: m)
  show "SettingRepository_Upsert new_id now req db =
      (Inr (old\<lparr>setting_Value := csr_Value req,
                setting_Description := csr_Description req, setting_UpdatedAt := now\<rparr>),
       db\<lparr>settings :=
            map (\<lambda>r. if r = old
                      then old\<lparr>setting_Value := csr_Value req,
                               setting_Description := csr_Description req,
                               setting_UpdatedAt := now\<rparr>
                      else r)
              (settings db)\<rparr>)"
    using r by (simp add: upd_def)
  show "length (settings (snd (SettingRepository_Upsert new_id now req db))) =
      length (settings db)"
    by (simp add: r)
  show "map setting_ID (settings (snd (SettingRepository_Upsert new_id now req db))) =
      map setting_ID (settings db)"
    by (simp add: r upd_def comp_def if_distrib [of setting_ID] cong: if_cong)
  have "filter (\<lambda>r. setting_Key r = setting_Key old)
      (map (\<lambda>r. if r = old then upd old else r) (settings db)) = [upd old]"
    by (rule filter_key_map_replace [OF d old]) (simp add: upd_def)
  then show "filter (\<lambda>r. setting_Key r = csr_Key req)
      (settings (snd (SettingRepository_Upsert new_id now req db))) =
      [old\<lparr>setting_Value := csr_Value req,
           setting_Description := csr_Description req, setting_UpdatedAt := now\<rparr>]"
    by (simp add: r key upd_def)
next
  assume la: "length (csr_Key req) \<le> 100 \<and>
    (\<forall>r\<in>set (settings db). setting_Key r \<noteq> csr_Key req \<and> setting_ID r \<noteq> new_id)"
  then have a: "\<forall>r\<in>set (settings db). setting_Key r \<noteq> csr_Key req \<and> setting_ID r \<noteq> new_id"
    by simp
  have v: "varchar 100 (csr_Key req) = Inr (csr_Key req)"
    using la by (simp add: varchar_fits)
  let ?row = "\<lparr>setting_ID = new_id, setting_Key = csr_Key req,
      setting_Value = csr_Value req, setting_Description = csr_Description req,
      setting_UpdatedAt = now\<rparr>"
  have f: "find (\<lambda>r. setting_Key r = csr_Key req) (settings db) = None"
    using a by (simp add: find_None_iff)
  have e: "\<not> list_ex (\<lambda>r. setting_ID r = new_id) (settings db)"
    using a by (simp add: list_ex_iff)
  show r: "SettingRepository_Upsert new_id now req db =
      (Inr ?row, db\<lparr>settings := settings db @ [?row]\<rparr>)"
    by (simp add: SettingRepository_Upsert_def upsert_setting_def v f e Let_def)
  have "filter (\<lambda>r. setting_Key r = csr_Key req) (settings db) = []"
    using a by (simp add: filter_empty_conv)
  then show "filter (\<lambda>r. setting_Key r = csr_Key req)
      (settings (snd (SettingRepository_Upsert new_id now req db))) = [?row]"
    by (simp add: r)
next
  assume "100 < length (csr_Key req) \<and> (\<exists>c\<in>set (drop 100 (csr_Key req)). c \<noteq> CHR '' '')"
  then have "varchar 100 (csr_Key req) = Inl string_data_right_truncation"
    by (simp add: varchar_too_long)
  then show "SettingRepository_Upsert new_id now req db =
      (Inl (Wrapped ''failed to upsert setting'' string_data_right_truncation), db)"
    by (simp add: SettingRepository_Upsert_def upsert_setting_def Let_def)
qed

text \<open>On the sample database: upserting \<open>site_name\<close> keeps identifier 11, upserting
  \<open>theme\<close> adds the row 77, and a key of 101 letters is refused.\<close>

theorem upsert_replaces_or_inserts_witness:
  "SettingRepository_Upsert 77 30
      \<lparr>csr_Key = ''site_name'', csr_Value = Some ''Blog'', csr_Description = Some ''title''\<rparr>
      sample_db =
     (Inr \<lparr>setting_ID = 11, setting_Key = ''site_name'', setting_Value = Some ''Blog'',
           setting_Description = Some ''title'', setting_UpdatedAt = 30\<rparr>,
      sample_db\<lparr>settings :=
        [\<lparr>setting_ID = 11, setting_Key = ''site_name'', setting_Value = Some ''Blog'',
          setting_Description = Some ''title'', setting_UpdatedAt = 30\<rparr>]\<rparr>) \<and>
   SettingRepository_Upsert 77 30
      \<lparr>csr_Key = ''theme'', csr_Value = Some ''dark'', csr_Description = None\<rparr> sample_db =
     (Inr \<lparr>setting_ID = 77, setting_Key = ''theme'', setting_Value = Some ''dark'',
           setting_Description = None, setting_UpdatedAt = 30\<rparr>,
      sample_db\<lparr>settings :=
        [sample_setting,
         \<lparr>setting_ID = 77, setting_Key = ''theme'', setting_Value = Some ''dark'',
          setting_Description = None, setting_UpdatedAt = 30\<rparr>]\<rparr>) \<and>
   SettingRepository_Upsert 77 30
      \<lparr>csr_Key = replicate 101 CHR ''k'', csr_Value = Some ''dark'', csr_Description = None\<rparr>
      sample_db =
     (Inl (Wrapped ''failed to upsert setting'' (PgError ''22001'')), sample_db)"
proof -
  let ?r1 = "\<lparr>csr_Key = ''site_name'', csr_Value = Some ''Blog'',
      csr_Description = Some ''title''\<rparr>"
  let ?r2 = "\<lparr>csr_Key = ''theme'', csr_Value = Some ''dark'', csr_Description = None\<rparr>"
  let ?r3 = "\<lparr>csr_Key = replicate 101 CHR ''k'', csr_Value = Some ''dark'',
      csr_Description = None\<rparr>"
  have l: "settings sample_db = [sample_setting]"
    by (simp add: sample_db_def)
  have d: "distinct (map setting_Key (settings sample_db)) \<and> length (csr_Key ?r1) \<le> 100"
    by (simp add: l)
  have m: "sample_setting \<in> set (settings sample_db)" "setting_Key sample_setting = csr_Key ?r1"
    by (simp_all add: l sample_setting_def)
  have a: "length (csr_Key ?r2) \<le> 100 \<and>
      (\<forall>r\<in>set (settings sample_db). setting_Key r \<noteq> csr_Key ?r2 \<and> setting_ID r \<noteq> 77)"
    by (simp add: l sample_setting_def)
  have long: "100 < length (csr_Key ?r3) \<and>
      (\<exists>c\<in>set (drop 100 (csr_Key ?r3)). c \<noteq> CHR '' '')"
    by simp
  have "SettingRepository_Upsert 77 30 ?r1 sample_db =
      (Inr (sample_setting\<lparr>setting_Value := csr_Value ?r1,
              setting_Description := csr_Description ?r1, setting_UpdatedAt := 30\<rparr>),
       sample_db\<lparr>settings :=
         map (\<lambda>r. if r = sample_setting
                   then sample_setting\<lparr>setting_Value := csr_Value ?r1,
                          setting_Description := csr_Description ?r1,
                          setting_UpdatedAt := 30\<rparr>
                   else r)
           (settings sample_db)\<rparr>)"
    using upsert_replaces_or_inserts [of sample_db ?r1 77 30] d m by blast
  moreover have "SettingRepository_Upsert 77 30 ?r2 sample_db =
      (Inr \<lparr>setting_ID = 77, setting_Key = csr_Key ?r2, setting_Value = csr_Value ?r2,
            setting_Description = csr_Description ?r2, setting_UpdatedAt = 30\<rparr>,
       sample_db\<lparr>settings := settings sample_db @
         [\<lparr>setting_ID = 77, setting_Key = csr_Key ?r2, setting_Value = csr_Value ?r2,
           setting_Description = csr_Description ?r2, setting_UpdatedAt = 30\<rparr>]\<rparr>)"
    using upsert_replaces_or_inserts [of sample_db ?r2 77 30] a by blast
  moreover have "SettingRepository_Upsert 77 30 ?r3 sample_db =
      (Inl (Wrapped ''failed to upsert setting'' string_data_right_truncation), sample_db)"
    using upsert_replaces_or_inserts [of sample_db ?r3 77 30] long by blast
  ultimately show ?thesis
    by (simp add: l string_data_right_truncation_def) (simp add: sample_setting_def)
qed

text \<open>An upsert of \<open>site_name\<close> with the value and description it already has still
  changes the row: \<^verbatim>\<open>updated_at\<close> goes from 20 to the time of the call. An upsert of a
  new key of 101 letters creates no row.\<close>

theorem upsert_updated_at_and_long_key_counterexample:
  "settings sample_db =
     [\<lparr>setting_ID = 11, setting_Key = ''site_name'', setting_Value = Some ''CMS'',
       setting_Description = None, setting_UpdatedAt = 20\<rparr>] \<and>
   settings (snd (SettingRepository_Upsert 77 30
       \<lparr>csr_Key = ''site_name'', csr_Value = Some ''CMS'', csr_Description = None\<rparr>
       sample_db)) =
     [\<lparr>setting_ID = 11, setting_Key = ''site_name'', setting_Value = Some ''CMS'',
       setting_Description = None, setting_UpdatedAt = 30\<rparr>] \<and>
   SettingRepository_Upsert 77 30
       \<lparr>csr_Key = replicate 101 CHR ''k'', csr_Value = None, csr_Description = None\<rparr>
       sample_db =
     (Inl (Wrapped ''failed to upsert setting'' (PgError ''22001'')), sample_db)"
  by (simp add: SettingRepository_Upsert_def upsert_setting_def varchar_def Let_def
      sample_db_def sample_setting_def string_data_right_truncation_def)

section \<open>Posts and their tags\<close>

lemma find_SomeD: "find P xs = Some x \<Longrightarrow> x \<in> set xs \<and> P x"
  by (induction xs) (auto split: if_splits)

lemma insert_post_tag_frame:
  assumes "insert_post_tag now pid t tx = Inr tx'"
  shows "tags tx' = tags tx" and "content_posts tx' = content_posts tx"
    and "post_tags tx' = post_tags tx \<or>
         post_tags tx' = post_tags tx @ [\<lparr>pt_PostID = pid, pt_TagID = t, pt_CreatedAt = now\<rparr>]"
  using assms by (auto simp: insert_post_tag_def split: if_splits)

lemma insert_post_tag_missing_tag:
  assumes "\<not> list_ex (\<lambda>g. tag_ID g = t) (tags tx)"
    and "\<not> list_ex (\<lambda>pt. pt_PostID pt = pid \<and> pt_TagID pt = t) (post_tags tx)"
  shows "insert_post_tag now pid t tx = Inl foreign_key_violation"
  using assms by (simp add: insert_post_tag_def)

lemma insert_post_tag_missing_post:
  assumes "\<not> list_ex (\<lambda>r. post_ID r = pid) (content_posts tx)"
    and "\<not> list_ex (\<lambda>pt. pt_PostID pt = pid \<and> pt_TagID pt = t) (post_tags tx)"
  shows "insert_post_tag now pid t tx = Inl foreign_key_violation"
  using assms by (simp add: insert_post_tag_def)

lemma attachTagsTx_missing_tag:
  assumes "t \<in> set ids"
    and "\<not> list_ex (\<lambda>g. tag_ID g = t) (tags tx)"
    and "\<not> list_ex (\<lambda>pt. pt_PostID pt = pid \<and> pt_TagID pt = t) (post_tags tx)"
  shows "\<exists>e. attachTagsTx now pid ids tx = Inl e"
  using assms
proof (induction ids arbitrary: tx)
  case Nil
  then show ?case by simp
next
  case (Cons a ids)
  show ?case
  proof (cases "insert_post_tag now pid a tx")
    case (Inl err)
    then show ?thesis by simp
  next
    case (Inr tx')
    have "a \<noteq> t"
      using insert_post_tag_missing_tag [OF Cons.prems(2,3), of now] Inr by auto
    then have mem: "t \<in> set ids" using Cons.prems(1) by simp
    have tg: "\<not> list_ex (\<lambda>g. tag_ID g = t) (tags tx')"
      using insert_post_tag_frame(1) [OF Inr] Cons.prems(2) by simp
    have pt: "\<not> list_ex (\<lambda>pt. pt_PostID pt = pid \<and> pt_TagID pt = t) (post_tags tx')"
      using insert_post_tag_frame(3) [OF Inr] Cons.prems(3) \<open>a \<noteq> t\<close> by auto
    from Cons.IH [OF mem tg pt] show ?thesis using Inr by simp
  qed
qed

lemma attachTagsTx_missing_post:
  assumes "ids \<noteq> []"
    and "\<not> list_ex (\<lambda>r. post_ID r = pid) (content_posts tx)"
    and "\<not> list_ex (\<lambda>pt. pt_PostID pt = pid) (post_tags tx)"
  shows "\<exists>e. attachTagsTx now pid ids tx = Inl e"
proof (cases ids)
  case Nil
  then show ?thesis using assms(1) by simp
next
  case (Cons a rest)
  have "\<not> list_ex (\<lambda>pt. pt_PostID pt = pid \<and> pt_TagID pt = a) (post_tags tx)"
    using assms(3) by (auto simp: list_ex_iff)
  from insert_post_tag_missing_post [OF assms(2) this, of now]
  show ?thesis using Cons by simp
qed

lemma insert_content_post_frame:
  assumes "insert_content_post now row db = Inr (tx, stored)"
  shows "tags tx = tags db" and "post_tags tx = post_tags db"
  using assms by (auto simp: insert_content_post_def Let_def split: if_splits)

lemma update_content_post_frame:
  assumes "update_content_post now sets pid db = Inr (tx, n)"
  shows "tags tx = tags db" and "post_tags tx = post_tags db"
    and "n = 0 \<longrightarrow> tx = db"
    and "n \<noteq> 0 \<longrightarrow> list_ex (\<lambda>r. post_ID r = pid) (content_posts db)"
  using assms
  by (auto simp: update_content_post_def Let_def list_ex_iff
      split: option.splits if_splits dest!: find_SomeD)

lemma no_row_for_missing_tag:
  assumes "foreign_keys_hold db" and "\<forall>g\<in>set (tags db). tag_ID g \<noteq> t"
  shows "\<not> list_ex (\<lambda>pt. pt_PostID pt = pid \<and> pt_TagID pt = t) (post_tags db)"
  using assms by (auto simp: foreign_keys_hold_def list_all_iff list_ex_iff)

lemma Create_error_unchanged:
  "fst (ContentPostRepository_Create new_id now req db) = Inl e \<Longrightarrow>
   snd (ContentPostRepository_Create new_id now req db) = db"
  by (auto simp: ContentPostRepository_Create_def Let_def split: sum.splits prod.splits)

lemma Create_missing_tag:
  assumes "foreign_keys_hold db" and "t \<in> set (cpr_TagIDs req)"
    and "\<forall>g\<in>set (tags db). tag_ID g \<noteq> t"
  shows "\<exists>e. ContentPostRepository_Create new_id now req db = (Inl e, db)"
proof -
  define row where "row = post_row.truncate
    (case cpr_Status req of
       None \<Rightarrow>
         \<lparr>post_ID = new_id, post_ContentTypeID = cpr_ContentTypeID req,
            post_AuthorID = cpr_AuthorID req, post_Title = cpr_Title req,
            post_Slug = cpr_Slug req, post_Excerpt = cpr_Excerpt req,
            post_Content = cpr_Content req, post_Metadata = cpr_Metadata req,
            post_Status = PostStatusDraft, post_PublishedAt = cpr_PublishedAt req,
            post_ViewCount = 0, post_CreatedAt = 0, post_UpdatedAt = 0,
            post_ContentType = None, post_Author = None, post_Tags = [],
            post_Media = []\<rparr>
     | Some st \<Rightarrow>
         \<lparr>post_ID = new_id, post_ContentTypeID = cpr_ContentTypeID req,
            post_AuthorID = cpr_AuthorID req, post_Title = cpr_Title req,
            post_Slug = cpr_Slug req, post_Excerpt = cpr_Excerpt req,
            post_Content = cpr_Content req, post_Metadata = cpr_Metadata req,
            post_Status = PostStatusDraft, post_PublishedAt = cpr_PublishedAt req,
            post_ViewCount = 0, post_CreatedAt = 0, post_UpdatedAt = 0,
            post_ContentType = None, post_Author = None, post_Tags = [],
            post_Media = []\<rparr>\<lparr>post_Status := st\<rparr>)"
  have ne: "0 < length (cpr_TagIDs req)" using assms(2) by (cases "cpr_TagIDs req") auto
  show ?thesis
  proof (cases "insert_content_post now row db")
    case (Inl err)
    then show ?thesis
      by (simp add: ContentPostRepository_Create_def Let_def row_def)
  next
    case (Inr res)
    obtain tx stored where res: "res = (tx, stored)" by (cases res)
    have ins: "insert_content_post now row db = Inr (tx, stored)" using Inr res by simp
    have id: "post_ID row = new_id"
      by (simp add: row_def post_row.defs split: option.splits)
    have tg: "\<not> list_ex (\<lambda>g. tag_ID g = t) (tags tx)"
      using insert_content_post_frame(1) [OF ins] assms(3) by (simp add: list_ex_iff)
    have pt: "\<not> list_ex (\<lambda>pt. pt_PostID pt = new_id \<and> pt_TagID pt = t) (post_tags tx)"
      using insert_content_post_frame(2) [OF ins] no_row_for_missing_tag [OF assms(1,3)]
      by simp
    obtain e where "attachTagsTx now new_id (cpr_TagIDs req) tx = Inl e"
      using attachTagsTx_missing_tag [OF assms(2) tg pt] by blast
    then show ?thesis
      using ins ne
      by (simp add: ContentPostRepository_Create_def Let_def row_def [symmetric]
          split: option.splits)
  qed
qed

lemma delete_post_tags_frame:
  "tags (delete_post_tags pid tx) = tags tx"
  "content_posts (delete_post_tags pid tx) = content_posts tx"
  "\<not> list_ex (\<lambda>pt. pt_PostID pt = pid) (post_tags (delete_post_tags pid tx))"
  "set (post_tags (delete_post_tags pid tx)) \<subseteq> set (post_tags tx)"
  by (auto simp: delete_post_tags_def list_ex_iff)

text \<open>The outcome of the first half of \<^verbatim>\<open>Update\<close>: the write of the post row.\<close>

lemma Update_unfold:
  "ContentPostRepository_Update now pid req db =
    (case (if length (post_setClauses req) > 0
           then (case update_content_post now (post_setClauses req) pid db of
                   Inl err \<Rightarrow>
                     Inl (case err of
                            PgError code \<Rightarrow>
                              if code = ''23505'' then ErrDuplicate
                              else if code = ''23503'' then ErrForeignKey
                              else Wrapped ''failed to update post'' err
                          | ErrNoRows \<Rightarrow> Wrapped ''failed to update post'' err)
                 | Inr (tx, rowsAffected) \<Rightarrow>
                     if rowsAffected = 0 then Inl ErrNotFound else Inr tx)
           else Inr db) of
       Inl err \<Rightarrow> (Inl err, db)
     | Inr tx \<Rightarrow>
         (case (case upr_TagIDs req of
                  None \<Rightarrow> Inr tx
                | Some tagIDs \<Rightarrow>
                    if length tagIDs > 0
                    then attachTagsTx now pid tagIDs (delete_post_tags pid tx)
                    else Inr (delete_post_tags pid tx)) of
            Inl err \<Rightarrow> (Inl err, db)
          | Inr tx \<Rightarrow> (ContentPostRepository_GetByID pid tx, tx)))"
  unfolding ContentPostRepository_Update_def Let_def by (rule refl)

lemma Update_row_write_cases:
  obtains (failed) err where
      "(if length (post_setClauses req) > 0
        then (case update_content_post now (post_setClauses req) pid db of
                Inl err \<Rightarrow>
                  Inl (case err of
                         PgError code \<Rightarrow>
                           if code = ''23505'' then ErrDuplicate
                           else if code = ''23503'' then ErrForeignKey
                           else Wrapped ''failed to update post'' err
                       | ErrNoRows \<Rightarrow> Wrapped ''failed to update post'' err)
              | Inr (tx, rowsAffected) \<Rightarrow>
                  if rowsAffected = 0 then Inl ErrNotFound else Inr tx)
        else Inr db) = Inl err"
  | (written) tx where
      "(if length (post_setClauses req) > 0
        then (case update_content_post now (post_setClauses req) pid db of
                Inl err \<Rightarrow>
                  Inl (case err of
                         PgError code \<Rightarrow>
                           if code = ''23505'' then ErrDuplicate
                           else if code = ''23503'' then ErrForeignKey
                           else Wrapped ''failed to update post'' err
                       | ErrNoRows \<Rightarrow> Wrapped ''failed to update post'' err)
              | Inr (tx, rowsAffected) \<Rightarrow>
                  if rowsAffected = 0 then Inl ErrNotFound else Inr tx)
        else Inr db) = Inr tx"
      "tags tx = tags db" "post_tags tx = post_tags db"
      "post_setClauses req = [] \<longrightarrow> tx = db"
      "post_setClauses req \<noteq> [] \<longrightarrow> list_ex (\<lambda>r. post_ID r = pid) (content_posts db)"
proof (cases "length (post_setClauses req) > 0")
  case False
  then show ?thesis by (intro written [of db]) simp_all
next
  case True
  show ?thesis
  proof (cases "update_content_post now (post_setClauses req) pid db")
    case (Inl err)
    then show ?thesis using True by (intro failed) simp
  next
    case (Inr res)
    obtain tx n where res: "res = (tx, n)" by (cases res)
    note fr = update_content_post_frame [OF Inr [unfolded res]]
    show ?thesis
    proof (cases "n = 0")
      case True
      then show ?thesis using \<open>0 < length (post_setClauses req)\<close> Inr res
        by (intro failed [of ErrNotFound]) simp
    next
      case False
      then show ?thesis using \<open>0 < length (post_setClauses req)\<close> Inr res fr
        by (intro written [of tx]) simp_all
    qed
  qed
qed

lemma Update_missing_tag:
  assumes "foreign_keys_hold db" and "upr_TagIDs req = Some ids" and "t \<in> set ids"
    and "\<forall>g\<in>set (tags db). tag_ID g \<noteq> t"
  shows "\<exists>e. ContentPostRepository_Update now pid req db = (Inl e, db)"
proof (cases rule: Update_row_write_cases [of req now pid db])
  case (failed err)
  then show ?thesis by (simp add: Update_unfold)
next
  case (written tx)
  have ne: "0 < length ids" using assms(3) by (cases ids) auto
  have tg: "\<not> list_ex (\<lambda>g. tag_ID g = t) (tags (delete_post_tags pid tx))"
    using written(2) assms(4) by (simp add: delete_post_tags_frame list_ex_iff)
  have pt: "\<not> list_ex (\<lambda>pt. pt_PostID pt = pid \<and> pt_TagID pt = t)
      (post_tags (delete_post_tags pid tx))"
    using delete_post_tags_frame(3) [of pid tx] by (auto simp: list_ex_iff)
  obtain e where "attachTagsTx now pid ids (delete_post_tags pid tx) = Inl e"
    using attachTagsTx_missing_tag [OF assms(3) tg pt] by blast
  then show ?thesis using written(1) assms(2) ne by (simp add: Update_unfold)
qed

lemma Update_missing_post:
  assumes "upr_TagIDs req = Some ids" and "ids \<noteq> []"
    and "\<forall>r\<in>set (content_posts db). post_ID r \<noteq> pid"
  shows "\<exists>e. ContentPostRepository_Update now pid req db = (Inl e, db)"
proof (cases rule: Update_row_write_cases [of req now pid db])
  case (failed err)
  then show ?thesis by (simp add: Update_unfold)
next
  case (written tx)
  have "post_setClauses req = []"
    using written(5) assms(3) by (auto simp: list_ex_iff)
  then have tx: "tx = db" using written(4) by simp
  have cp: "\<not> list_ex (\<lambda>r. post_ID r = pid) (content_posts (delete_post_tags pid tx))"
    using assms(3) tx by (simp add: delete_post_tags_frame list_ex_iff)
  obtain e where "attachTagsTx now pid ids (delete_post_tags pid tx) = Inl e"
    using attachTagsTx_missing_post [OF assms(2) cp delete_post_tags_frame(3)] by blast
  then show ?thesis using written(1) assms(1,2) by (simp add: Update_unfold)
qed

text \<open>
  Claim C4. \<^verbatim>\<open>Create\<close> and \<^verbatim>\<open>Update\<close> write the post row and the tag associations
  in one transaction. Whenever \<^verbatim>\<open>Create\<close> returns an error, the database is the one it
  started from. On a database whose foreign keys hold, a request naming a tag that does
  not exist makes the tag step fail: \<^verbatim>\<open>Create\<close> returns an error and no row is added,
  \<^verbatim>\<open>Update\<close> returns an error and the post row keeps its values, whatever fields the
  request carried. \<^verbatim>\<open>Update\<close> of a post that does not exist, with tag identifiers,
  also returns an error and writes nothing.
\<close>

theorem post_write_is_all_or_nothing:
  "(fst (ContentPostRepository_Create new_id now req db) = Inl e \<longrightarrow>
      snd (ContentPostRepository_Create new_id now req db) = db) \<and>
   (foreign_keys_hold db \<and>
    (\<exists>t\<in>set (cpr_TagIDs req). \<forall>g\<in>set (tags db). tag_ID g \<noteq> t) \<longrightarrow>
      (\<exists>err. ContentPostRepository_Create new_id now req db = (Inl err, db))) \<and>
   (foreign_keys_hold db \<and> upr_TagIDs ureq = Some ids \<and>
    (\<exists>t\<in>set ids. \<forall>g\<in>set (tags db). tag_ID g \<noteq> t) \<longrightarrow>
      (\<exists>err. ContentPostRepository_Update now pid ureq db = (Inl err, db))) \<and>
   (upr_TagIDs ureq = Some ids \<and> ids \<noteq> [] \<and>
    (\<forall>r\<in>set (content_posts db). post_ID r \<noteq> pid) \<longrightarrow>
      (\<exists>err. ContentPostRepository_Update now pid ureq db = (Inl err, db)))"
  using Create_error_unchanged [of new_id now req db e]
    Create_missing_tag [of db _ req new_id now]
    Update_missing_tag [of db ureq ids _ now pid]
    Update_missing_post [of ureq ids db pid now]
  by blast

text \<open>On the sample database: a new post tagged \<open>news\<close> and the unknown tag 99, and a
  retitling of post 4 that asks for the unknown tag 99, both fail and leave the database
  as it was.\<close>

theorem post_write_is_all_or_nothing_witness:
  "isl (fst (ContentPostRepository_Create 20 100
              (sample_create_request\<lparr>cpr_TagIDs := [5, 99]\<rparr>) sample_db)) \<and>
   snd (ContentPostRepository_Create 20 100
          (sample_create_request\<lparr>cpr_TagIDs := [5, 99]\<rparr>) sample_db) = sample_db \<and>
   isl (fst (ContentPostRepository_Update 100 4
              \<lparr>upr_ContentTypeID = None, upr_Title = Some ''Changed'', upr_Slug = None,
               upr_Excerpt = None, upr_Content = None, upr_Metadata = None,
               upr_Status = None, upr_PublishedAt = None, upr_TagIDs = Some [99]\<rparr>
              sample_db)) \<and>
   snd (ContentPostRepository_Update 100 4
          \<lparr>upr_ContentTypeID = None, upr_Title = Some ''Changed'', upr_Slug = None,
           upr_Excerpt = None, upr_Content = None, upr_Metadata = None,
           upr_Status = None, upr_PublishedAt = None, upr_TagIDs = Some [99]\<rparr>
          sample_db) = sample_db"
proof -
  let ?req = "sample_create_request\<lparr>cpr_TagIDs := [5, 99]\<rparr>"
  let ?ureq = "\<lparr>upr_ContentTypeID = None, upr_Title = Some ''Changed'', upr_Slug = None,
      upr_Excerpt = None, upr_Content = None, upr_Metadata = None,
      upr_Status = None, upr_PublishedAt = None, upr_TagIDs = Some [99]\<rparr>"
  have fk: "foreign_keys_hold sample_db"
    by (simp add: foreign_keys_hold_def sample_defs)
  have missing: "\<exists>t\<in>set (cpr_TagIDs ?req). \<forall>g\<in>set (tags sample_db). tag_ID g \<noteq> t"
    "\<exists>t\<in>set [99]. \<forall>g\<in>set (tags sample_db). tag_ID g \<noteq> t"
    by (simp_all add: sample_defs)
  have u: "upr_TagIDs ?ureq = Some [99]" by simp
  note inst = post_write_is_all_or_nothing
    [where db = sample_db and req = ?req and new_id = 20 and now = 100
       and ureq = ?ureq and ids = "[99]" and pid = 4]
  obtain e1 where e1: "ContentPostRepository_Create 20 100 ?req sample_db = (Inl e1, sample_db)"
    using inst fk missing(1) by blast
  obtain e2 where e2: "ContentPostRepository_Update 100 4 ?ureq sample_db = (Inl e2, sample_db)"
    using inst fk missing(2) u by blast
  show ?thesis by (simp add: e1 e2)
qed

section \<open>Replacing the tags of a post by none\<close>

lemma getPostTags_no_rows:
  assumes "\<not> list_ex (\<lambda>pt. pt_PostID pt = pid) (post_tags db)"
  shows "getPostTags pid db = []"
proof -
  have e: "filter (\<lambda>pt. pt_TagID pt = tag_ID t \<and> pt_PostID pt = pid) (post_tags db) = []"
    for t :: Tag
    using assms by (auto simp: filter_empty_conv list_ex_iff)
  have c: "concat (map (\<lambda>t. map (\<lambda>pt. t)
      (filter (\<lambda>pt. pt_TagID pt = tag_ID t \<and> pt_PostID pt = pid) (post_tags db)))
      (tags db)) = []"
    by (simp add: e)
  show ?thesis unfolding getPostTags_def c by simp
qed

lemma GetByID_Inr:
  assumes "ContentPostRepository_GetByID pid db = Inr p"
  shows "\<exists>cp ct u. find (\<lambda>r. post_ID r = pid) (content_posts db) = Some cp \<and>
           find (\<lambda>c. ct_ID c = post_ContentTypeID cp) (content_types db) = Some ct \<and>
           find (\<lambda>u. user_ID u = post_AuthorID cp) (users db) = Some u \<and>
           post_ID cp = pid \<and> cp \<in> set (content_posts db) \<and>
           p = post_row.extend cp
                 (ContentPost.fields (Some ct)
                    (Some \<lparr>ur_ID = user_ID u, ur_Email = user_Email u,
                           ur_FullName = user_FullName u, ur_Role = user_Role u,
                           ur_IsActive = user_IsActive u, ur_LastLogin = user_LastLogin u,
                           ur_CreatedAt = user_CreatedAt u,
                           ur_UpdatedAt = user_UpdatedAt u\<rparr>)
                    (getPostTags pid db) (getPostMedia pid db))"
  using assms
  by (auto simp: ContentPostRepository_GetByID_def split: option.splits dest!: find_SomeD)

lemma GetByID_after_delete_post_tags:
  assumes "ContentPostRepository_GetByID pid db = Inr p"
  shows "ContentPostRepository_GetByID pid (delete_post_tags pid db) = Inr (p\<lparr>post_Tags := []\<rparr>)"
proof -
  obtain cp ct u where f: "find (\<lambda>r. post_ID r = pid) (content_posts db) = Some cp"
      "find (\<lambda>c. ct_ID c = post_ContentTypeID cp) (content_types db) = Some ct"
      "find (\<lambda>u. user_ID u = post_AuthorID cp) (users db) = Some u"
      "post_ID cp = pid"
    and p: "p = post_row.extend cp
                 (ContentPost.fields (Some ct)
                    (Some \<lparr>ur_ID = user_ID u, ur_Email = user_Email u,
                           ur_FullName = user_FullName u, ur_Role = user_Role u,
                           ur_IsActive = user_IsActive u, ur_LastLogin = user_LastLogin u,
                           ur_CreatedAt = user_CreatedAt u,
                           ur_UpdatedAt = user_UpdatedAt u\<rparr>)
                    (getPostTags pid db) (getPostMedia pid db))"
    using GetByID_Inr [OF assms] by blast
  have t: "getPostTags pid (delete_post_tags pid db) = []"
    by (rule getPostTags_no_rows) (rule delete_post_tags_frame)
  have m: "getPostMedia pid (delete_post_tags pid db) = getPostMedia pid db"
    by (simp add: getPostMedia_def delete_post_tags_def)
  have d: "content_posts (delete_post_tags pid db) = content_posts db"
    "content_types (delete_post_tags pid db) = content_types db"
    "users (delete_post_tags pid db) = users db"
    by (simp_all add: delete_post_tags_def)
  show ?thesis
    by (simp add: ContentPostRepository_GetByID_def d f t m p post_row.defs ContentPost.defs)
qed

lemma Update_returns_fresh_load:
  assumes "ContentPostRepository_Update now pid req db = (Inr q, db')"
  shows "ContentPostRepository_GetByID pid db' = Inr q"
  using assms unfolding Update_unfold
  by (auto split: sum.splits if_splits option.splits prod.splits)

lemma Update_empty_tags_no_rows:
  assumes "ContentPostRepository_Update now pid req db = (Inr q, db')"
    and "upr_TagIDs req = Some []"
  shows "\<not> list_ex (\<lambda>pt. pt_PostID pt = pid) (post_tags db')"
proof (cases rule: Update_row_write_cases [of req now pid db])
  case (failed err)
  then show ?thesis using assms(1) by (simp add: Update_unfold)
next
  case (written tx)
  then have "db' = delete_post_tags pid tx"
    using assms by (simp add: Update_unfold)
  then show ?thesis by (simp add: delete_post_tags_frame)
qed

text \<open>
  Claim C5. For a post that \<^verbatim>\<open>GetByID\<close> loads as \<open>p\<close>, \<^verbatim>\<open>Update\<close> with the tag
  identifiers present and empty (and no other field) removes exactly the rows of
  \<^verbatim>\<open>post_tags\<close> of that post, touches nothing else, and returns \<open>p\<close> with an empty tag
  list, which is also what \<^verbatim>\<open>GetByID\<close> returns afterwards. With other fields in the
  request as well, a successful \<^verbatim>\<open>Update\<close> still returns a post with no tags, equal to
  what \<^verbatim>\<open>GetByID\<close> loads from the resulting database, where the post row is present
  and \<^verbatim>\<open>post_tags\<close> has no row for it.
\<close>

theorem update_with_empty_tag_list:
  "(ContentPostRepository_GetByID pid db = Inr p \<longrightarrow>
      ContentPostRepository_Update now pid
        \<lparr>upr_ContentTypeID = None, upr_Title = None, upr_Slug = None, upr_Excerpt = None,
         upr_Content = None, upr_Metadata = None, upr_Status = None,
         upr_PublishedAt = None, upr_TagIDs = Some []\<rparr> db =
        (Inr (p\<lparr>post_Tags := []\<rparr>),
         db\<lparr>post_tags := filter (\<lambda>pt. pt_PostID pt \<noteq> pid) (post_tags db)\<rparr>) \<and>
      ContentPostRepository_GetByID pid
        (db\<lparr>post_tags := filter (\<lambda>pt. pt_PostID pt \<noteq> pid) (post_tags db)\<rparr>) =
        Inr (p\<lparr>post_Tags := []\<rparr>)) \<and>
   (upr_TagIDs req = Some [] \<and>
    ContentPostRepository_Update now pid req db = (Inr q, db') \<longrightarrow>
      post_Tags q = [] \<and>
      ContentPostRepository_GetByID pid db' = Inr q \<and>
      (\<exists>r\<in>set (content_posts db'). post_ID r = pid) \<and>
      (\<forall>pt\<in>set (post_tags db'). pt_PostID pt \<noteq> pid))"
proof (intro conjI impI)
  let ?req = "\<lparr>upr_ContentTypeID = None, upr_Title = None, upr_Slug = None,
      upr_Excerpt = None, upr_Content = None, upr_Metadata = None, upr_Status = None,
      upr_PublishedAt = None, upr_TagIDs = Some []\<rparr>"
  assume g: "ContentPostRepository_GetByID pid db = Inr p"
  have s: "post_setClauses ?req = []" by (simp add: post_setClauses_def)
  have d: "delete_post_tags pid db =
      db\<lparr>post_tags := filter (\<lambda>pt. pt_PostID pt \<noteq> pid) (post_tags db)\<rparr>"
    by (simp add: delete_post_tags_def)
  show "ContentPostRepository_Update now pid ?req db =
      (Inr (p\<lparr>post_Tags := []\<rparr>),
       db\<lparr>post_tags := filter (\<lambda>pt. pt_PostID pt \<noteq> pid) (post_tags db)\<rparr>)"
    using GetByID_after_delete_post_tags [OF g] by (simp add: Update_unfold s d)
  show "ContentPostRepository_GetByID pid
      (db\<lparr>post_tags := filter (\<lambda>pt. pt_PostID pt \<noteq> pid) (post_tags db)\<rparr>) =
      Inr (p\<lparr>post_Tags := []\<rparr>)"
    using GetByID_after_delete_post_tags [OF g] by (simp add: d)
next
  assume a: "upr_TagIDs req = Some [] \<and>
    ContentPostRepository_Update now pid req db = (Inr q, db')"
  then have upd: "ContentPostRepository_Update now pid req db = (Inr q, db')"
    and tg: "upr_TagIDs req = Some []" by simp_all
  have load: "ContentPostRepository_GetByID pid db' = Inr q"
    using upd by (rule Update_returns_fresh_load)
  have none: "\<not> list_ex (\<lambda>pt. pt_PostID pt = pid) (post_tags db')"
    using upd tg by (rule Update_empty_tags_no_rows)
  obtain cp where cp: "cp \<in> set (content_posts db')" "post_ID cp = pid"
    and q: "post_Tags q = getPostTags pid db'"
    using GetByID_Inr [OF load] by (auto simp: post_row.defs ContentPost.defs)
  show "post_Tags q = []" using q getPostTags_no_rows [OF none] by simp
  show "ContentPostRepository_GetByID pid db' = Inr q" by (rule load)
  show "\<exists>r\<in>set (content_posts db'). post_ID r = pid" using cp by blast
  show "\<forall>pt\<in>set (post_tags db'). pt_PostID pt \<noteq> pid" using none by (simp add: list_ex_iff)
qed

text \<open>Post 4 of the sample database is tagged \<open>news\<close>; after the update it has no tag
  and its row is the one stored before.\<close>

theorem update_with_empty_tag_list_witness:
  "map_sum id post_Tags (ContentPostRepository_GetByID 4 sample_db) = Inr [sample_news_tag] \<and>
   snd (ContentPostRepository_Update 100 4
          \<lparr>upr_ContentTypeID = None, upr_Title = None, upr_Slug = None, upr_Excerpt = None,
           upr_Content = None, upr_Metadata = None, upr_Status = None,
           upr_PublishedAt = None, upr_TagIDs = Some []\<rparr> sample_db) =
     sample_db\<lparr>post_tags := []\<rparr> \<and>
   map_sum id post_Tags
     (fst (ContentPostRepository_Update 100 4
          \<lparr>upr_ContentTypeID = None, upr_Title = None, upr_Slug = None, upr_Excerpt = None,
           upr_Content = None, upr_Metadata = None, upr_Status = None,
           upr_PublishedAt = None, upr_TagIDs = Some []\<rparr> sample_db)) = Inr [] \<and>
   map_sum id post_row.truncate
     (fst (ContentPostRepository_Update 100 4
          \<lparr>upr_ContentTypeID = None, upr_Title = None, upr_Slug = None, upr_Excerpt = None,
           upr_Content = None, upr_Metadata = None, upr_Status = None,
           upr_PublishedAt = None, upr_TagIDs = Some []\<rparr> sample_db)) = Inr sample_post \<and>
   ContentPostRepository_GetByID 4 (sample_db\<lparr>post_tags := []\<rparr>) =
     fst (ContentPostRepository_Update 100 4
          \<lparr>upr_ContentTypeID = None, upr_Title = None, upr_Slug = None, upr_Excerpt = None,
           upr_Content = None, upr_Metadata = None, upr_Status = None,
           upr_PublishedAt = None, upr_TagIDs = Some []\<rparr> sample_db)"
proof -
  let ?req = "\<lparr>upr_ContentTypeID = None, upr_Title = None, upr_Slug = None,
      upr_Excerpt = None, upr_Content = None, upr_Metadata = None, upr_Status = None,
      upr_PublishedAt = None, upr_TagIDs = Some []\<rparr>"
  obtain p where g: "ContentPostRepository_GetByID 4 sample_db = Inr p"
    and t: "post_Tags p = [sample_news_tag]"
    and r: "post_row.truncate p = sample_post"
    by (simp add: ContentPostRepository_GetByID_def getPostTags_def getPostMedia_def
        sample_defs post_row.defs ContentPost.defs)
  have f: "filter (\<lambda>pt. pt_PostID pt \<noteq> 4) (post_tags sample_db) = []"
    by (simp add: sample_defs)
  have u: "ContentPostRepository_Update 100 4 ?req sample_db =
      (Inr (p\<lparr>post_Tags := []\<rparr>), sample_db\<lparr>post_tags := []\<rparr>)"
    and l: "ContentPostRepository_GetByID 4 (sample_db\<lparr>post_tags := []\<rparr>) =
      Inr (p\<lparr>post_Tags := []\<rparr>)"
    using update_with_empty_tag_list [of 4 sample_db p 100] g unfolding f by blast+
  have r': "post_row.truncate (p\<lparr>post_Tags := []\<rparr>) = sample_post"
    using r by (simp add: post_row.defs)
  show ?thesis by (simp add: g t u l r')
qed

section \<open>What a created post's response carries\<close>

lemma Create_returns_no_relations:
  assumes "ContentPostRepository_Create new_id now req db = (Inr post, db')"
  shows "post_Tags post = [] \<and> post_Media post = [] \<and>
         post_ContentType post = None \<and> post_Author post = None"
  using assms
  by (auto simp: ContentPostRepository_Create_def Let_def
      split: sum.splits prod.splits option.splits if_splits)

text \<open>
  Claim C9, at one request. \<^verbatim>\<open>ContentPostHandler.Create\<close> answers 201 with the post
  that \<^verbatim>\<open>ContentPostRepository.Create\<close> assembles from the request and the
  \<^verbatim>\<open>RETURNING\<close> columns: its content type, author, tags and media are empty. Loading
  the same post from the database the call leaves gives the content type, the author
  and the tag \<open>news\<close>, and that loaded post is what \<^verbatim>\<open>ContentPostHandler.Update\<close>
  answers for the same post.
\<close>

theorem post_create_response_lacks_relations:
  "fst (ContentPostHandler_Create 20 100 (Some sample_create_request) sample_db) =
     Created
       \<lparr>post_ID = 20, post_ContentTypeID = 2, post_AuthorID = 1, post_Title = ''Second'',
        post_Slug = ''second'', post_Excerpt = None, post_Content = None,
        post_Metadata = None, post_Status = PostStatusDraft, post_PublishedAt = None,
        post_ViewCount = 0, post_CreatedAt = 100, post_UpdatedAt = 100,
        post_ContentType = None, post_Author = None, post_Tags = [], post_Media = []\<rparr> \<and>
   ContentPostRepository_GetByID 20
       (snd (ContentPostHandler_Create 20 100 (Some sample_create_request) sample_db)) =
     Inr
       \<lparr>post_ID = 20, post_ContentTypeID = 2, post_AuthorID = 1, post_Title = ''Second'',
        post_Slug = ''second'', post_Excerpt = None, post_Content = None,
        post_Metadata = None, post_Status = PostStatusDraft, post_PublishedAt = None,
        post_ViewCount = 0, post_CreatedAt = 100, post_UpdatedAt = 100,
        post_ContentType = Some sample_article_type,
        post_Author =
          Some \<lparr>ur_ID = user_ID sample_user, ur_Email = user_Email sample_user,
                ur_FullName = user_FullName sample_user, ur_Role = user_Role sample_user,
                ur_IsActive = user_IsActive sample_user,
                ur_LastLogin = user_LastLogin sample_user,
                ur_CreatedAt = user_CreatedAt sample_user,
                ur_UpdatedAt = user_UpdatedAt sample_user\<rparr>,
        post_Tags = [sample_news_tag], post_Media = []\<rparr> \<and>
   fst (ContentPostHandler_Update 101 (Some 20)
          (Some \<lparr>upr_ContentTypeID = None, upr_Title = None, upr_Slug = None,
                 upr_Excerpt = None, upr_Content = None, upr_Metadata = None,
                 upr_Status = None, upr_PublishedAt = None, upr_TagIDs = None\<rparr>)
          (snd (ContentPostHandler_Create 20 100 (Some sample_create_request) sample_db))) =
     OK
       \<lparr>post_ID = 20, post_ContentTypeID = 2, post_AuthorID = 1, post_Title = ''Second'',
        post_Slug = ''second'', post_Excerpt = None, post_Content = None,
        post_Metadata = None, post_Status = PostStatusDraft, post_PublishedAt = None,
        post_ViewCount = 0, post_CreatedAt = 100, post_UpdatedAt = 100,
        post_ContentType = Some sample_article_type,
        post_Author =
          Some \<lparr>ur_ID = user_ID sample_user, ur_Email = user_Email sample_user,
                ur_FullName = user_FullName sample_user, ur_Role = user_Role sample_user,
                ur_IsActive = user_IsActive sample_user,
                ur_LastLogin = user_LastLogin sample_user,
                ur_CreatedAt = user_CreatedAt sample_user,
                ur_UpdatedAt = user_UpdatedAt sample_user\<rparr>,
        post_Tags = [sample_news_tag], post_Media = []\<rparr>"
proof -
  define created :: ContentPost where "created =
      \<lparr>post_ID = 20, post_ContentTypeID = 2, post_AuthorID = 1, post_Title = ''Second'',
        post_Slug = ''second'', post_Excerpt = None, post_Content = None,
        post_Metadata = None, post_Status = PostStatusDraft, post_PublishedAt = None,
        post_ViewCount = 0, post_CreatedAt = 100, post_UpdatedAt = 100,
        post_ContentType = None, post_Author = None, post_Tags = [], post_Media = []\<rparr>"
  define loaded :: ContentPost where "loaded =
      \<lparr>post_ID = 20, post_ContentTypeID = 2, post_AuthorID = 1, post_Title = ''Second'',
        post_Slug = ''second'', post_Excerpt = None, post_Content = None,
        post_Metadata = None, post_Status = PostStatusDraft, post_PublishedAt = None,
        post_ViewCount = 0, post_CreatedAt = 100, post_UpdatedAt = 100,
        post_ContentType = Some sample_article_type,
        post_Author =
          Some \<lparr>ur_ID = user_ID sample_user, ur_Email = user_Email sample_user,
                ur_FullName = user_FullName sample_user, ur_Role = user_Role sample_user,
                ur_IsActive = user_IsActive sample_user,
                ur_LastLogin = user_LastLogin sample_user,
                ur_CreatedAt = user_CreatedAt sample_user,
                ur_UpdatedAt = user_UpdatedAt sample_user\<rparr>,
        post_Tags = [sample_news_tag], post_Media = []\<rparr>"
  define db' where "db' =
      sample_db\<lparr>content_posts :=
           [sample_post,
            \<lparr>post_ID = 20, post_ContentTypeID = 2, post_AuthorID = 1, post_Title = ''Second'',
             post_Slug = ''second'', post_Excerpt = None, post_Content = None,
             post_Metadata = None, post_Status = PostStatusDraft, post_PublishedAt = None,
             post_ViewCount = 0, post_CreatedAt = 100, post_UpdatedAt = 100\<rparr>],
         post_tags :=
           [\<lparr>pt_PostID = 4, pt_TagID = 5, pt_CreatedAt = 14\<rparr>,
            \<lparr>pt_PostID = 20, pt_TagID = 5, pt_CreatedAt = 100\<rparr>]\<rparr>"
  have c: "ContentPostRepository_Create 20 100 sample_create_request sample_db =
      (Inr created, db')"
    unfolding created_def db'_def
    by (simp add: ContentPostRepository_Create_def insert_content_post_def
        insert_post_tag_def sample_create_request_def sample_defs Let_def
        post_row.defs ContentPost.defs)
  have v: "cpr_Title sample_create_request \<noteq> []" "cpr_Slug sample_create_request \<noteq> []"
    "cpr_ContentTypeID sample_create_request \<noteq> uuid_Nil"
    "cpr_AuthorID sample_create_request \<noteq> uuid_Nil"
    by (simp_all add: sample_create_request_def uuid_Nil_def)
  have h: "ContentPostHandler_Create 20 100 (Some sample_create_request) sample_db =
      (Created created, db')"
    by (simp add: ContentPostHandler_Create_def c v)
  have g: "ContentPostRepository_GetByID 20 db' = Inr loaded"
    unfolding loaded_def db'_def
    by (simp add: ContentPostRepository_GetByID_def getPostTags_def getPostMedia_def
        sample_defs post_row.defs ContentPost.defs)
  have s: "post_setClauses \<lparr>upr_ContentTypeID = None, upr_Title = None, upr_Slug = None,
      upr_Excerpt = None, upr_Content = None, upr_Metadata = None,
      upr_Status = None, upr_PublishedAt = None, upr_TagIDs = None\<rparr> = []"
    by (simp add: post_setClauses_def)
  have u: "ContentPostHandler_Update 101 (Some 20)
      (Some \<lparr>upr_ContentTypeID = None, upr_Title = None, upr_Slug = None,
             upr_Excerpt = None, upr_Content = None, upr_Metadata = None,
             upr_Status = None, upr_PublishedAt = None, upr_TagIDs = None\<rparr>) db' =
      (OK loaded, db')"
    by (simp add: ContentPostHandler_Update_def Update_unfold s g)
  have "fst (ContentPostHandler_Create 20 100 (Some sample_create_request) sample_db) =
      Created created \<and>
    ContentPostRepository_GetByID 20
      (snd (ContentPostHandler_Create 20 100 (Some sample_create_request) sample_db)) =
      Inr loaded \<and>
    fst (ContentPostHandler_Update 101 (Some 20)
          (Some \<lparr>upr_ContentTypeID = None, upr_Title = None, upr_Slug = None,
                 upr_Excerpt = None, upr_Content = None, upr_Metadata = None,
                 upr_Status = None, upr_PublishedAt = None, upr_TagIDs = None\<rparr>)
          (snd (ContentPostHandler_Create 20 100 (Some sample_create_request) sample_db))) =
      OK loaded"
    by (simp add: h g u)
  then show ?thesis unfolding created_def loaded_def .
qed

end
